theory Spec2Isabelle
  imports Main "HOL-Library.Multiset"
begin

section \<open>Time: the dayjs operations the notification service calls\<close>

text \<open>
  An instant is a number of milliseconds since 1970-01-01T00:00:00.000, as a JavaScript
  \<open>Date\<close> holds it. dayjs reads the fields of an instant in the local zone; the local
  zone is taken to be UTC here (no offset, no daylight-saving shift), so a day has
  86400000 milliseconds and starts at a multiple of that number.
\<close>

type_synonym instant = int

definition MS_MINUTE :: int where
  "MS_MINUTE = 60000"

definition MS_HOUR :: int where
  "MS_HOUR = 3600000"

definition MS_DAY :: int where
  "MS_DAY = 86400000"

definition startOfDay :: "instant \<Rightarrow> instant" where
  "startOfDay t = t - t mod MS_DAY"

definition endOfDay :: "instant \<Rightarrow> instant" where
  "endOfDay t = startOfDay t + MS_DAY - 1"

definition hourOf :: "instant \<Rightarrow> int" where
  "hourOf t = (t mod MS_DAY) div MS_HOUR"

definition minuteOf :: "instant \<Rightarrow> int" where
  "minuteOf t = (t mod MS_HOUR) div MS_MINUTE"

text \<open>
  A number as the time check meets it. \<open>Num i\<close> is a finite number with integer part
  \<open>i\<close>: the time check hands its numbers to \<open>Date.setHours\<close> and \<open>Date.setMinutes\<close>
  only, which drop the fraction. \<open>NaN\<close> is \<open>NaN\<close>, an invalid date, and also an
  infinite number, of which the two setters make the same invalid date. \<open>Undefined\<close>
  is \<open>undefined\<close>, an array element that is not there.
\<close>

datatype jsnum = Num int | NaN | Undefined

text \<open>
  A \<open>Date\<close> holds at most 8.64e15 milliseconds either side of the epoch; a time
  value beyond that is \<open>NaN\<close>, the invalid date (\<open>TimeClip\<close>).
\<close>

definition MAX_TIME :: int where
  "MAX_TIME = 8640000000000000"

definition timeClip :: "int \<Rightarrow> jsnum" where
  "timeClip t = (if \<bar>t\<bar> \<le> MAX_TIME then Num t else NaN)"

text \<open>
  \<open>d.hour(h)\<close> and \<open>d.minute(m)\<close> call \<open>Date.setHours\<close> and \<open>Date.setMinutes\<close> on a
  copy: one field is replaced, the others (seconds and milliseconds among them) stay,
  a value out of the field's range carries into the next field, and the result is
  clipped to the range of a \<open>Date\<close>. The sums are exact here and in doubles in
  JavaScript; the two agree as long as the field value is small enough for every
  intermediate sum to stay below \<open>2^53\<close>, which holds for an hour below 24 and a
  minute below 60, the values the statements about the time check are made for.
\<close>

definition setHour :: "instant \<Rightarrow> int \<Rightarrow> jsnum" where
  "setHour t h = timeClip (t + (h - hourOf t) * MS_HOUR)"

definition setMinute :: "instant \<Rightarrow> int \<Rightarrow> jsnum" where
  "setMinute t m = timeClip (t + (m - minuteOf t) * MS_MINUTE)"

text \<open>
  \<open>a.diff(b, unit)\<close> divides the difference in milliseconds by the unit and drops the
  fraction towards zero.
\<close>

definition truncDiv :: "int \<Rightarrow> int \<Rightarrow> int" where
  "truncDiv x d = (if x < 0 then - ((- x) div d) else x div d)"

definition diffMinute :: "instant \<Rightarrow> instant \<Rightarrow> int" where
  "diffMinute a b = truncDiv (a - b) MS_MINUTE"

definition diffDay :: "instant \<Rightarrow> instant \<Rightarrow> int" where
  "diffDay a b = truncDiv (a - b) MS_DAY"

text \<open>\<open>d.day()\<close>: the day of the week, Sunday = 0; 1970-01-01 was a Thursday.\<close>

definition dayOfWeek :: "instant \<Rightarrow> int" where
  "dayOfWeek t = (t div MS_DAY + 4) mod 7"

text \<open>
  The civil date of a day number (days since 1970-01-01) in the proleptic Gregorian
  calendar, by the era / day-of-era computation: year, month (1 to 12), day of month.
\<close>

definition civil :: "int \<Rightarrow> int \<times> int \<times> int" where
  "civil z0 =
    (let z = z0 + 719468;
         era = z div 146097;
         doe = z - era * 146097;
         yoe = (doe - doe div 1460 + doe div 36524 - doe div 146096) div 365;
         doy = doe - (365 * yoe + yoe div 4 - yoe div 100);
         mp = (5 * doy + 2) div 153;
         d = doy - (153 * mp + 2) div 5 + 1;
         m = (if mp < 10 then mp + 3 else mp - 9);
         y = yoe + era * 400 + (if m \<le> 2 then 1 else 0)
     in (y, m, d))"

definition yearOf :: "instant \<Rightarrow> int" where
  "yearOf t = fst (civil (t div MS_DAY))"

definition monthOf :: "instant \<Rightarrow> int" where
  "monthOf t = fst (snd (civil (t div MS_DAY)))"

text \<open>\<open>d.date()\<close>: the day of the month.\<close>

definition dateOf :: "instant \<Rightarrow> int" where
  "dateOf t = snd (snd (civil (t div MS_DAY)))"

definition isLeapYear :: "int \<Rightarrow> bool" where
  "isLeapYear y = ((y mod 4 = 0 \<and> y mod 100 \<noteq> 0) \<or> y mod 400 = 0)"

definition daysInMonth :: "int \<Rightarrow> int \<Rightarrow> int" where
  "daysInMonth y m =
    (if m = 2 then (if isLeapYear y then 29 else 28)
     else if m = 4 \<or> m = 6 \<or> m = 9 \<or> m = 11 then 30
     else 31)"

text \<open>
  \<open>d.endOf('week')\<close>: the last millisecond of the Saturday of \<open>d\<close>'s week (the default
  locale starts the week on Sunday). \<open>d.endOf('month')\<close>: the last millisecond of the
  last day of \<open>d\<close>'s month.
\<close>

definition endOfWeek :: "instant \<Rightarrow> instant" where
  "endOfWeek t = endOfDay (t + (6 - dayOfWeek t) * MS_DAY)"

definition endOfMonth :: "instant \<Rightarrow> instant" where
  "endOfMonth t = endOfDay (t + (daysInMonth (yearOf t) (monthOf t) - dateOf t) * MS_DAY)"

section \<open>JavaScript values met on the way\<close>

text \<open>
  \<open>s.split(':')\<close>: the pieces of \<open>s\<close> between colons; never an empty array.
\<close>

fun split_colon :: "string \<Rightarrow> string list" where
  "split_colon [] = [[]]"
| "split_colon (c # cs) =
    (if c = CHR '':'' then [] # split_colon cs
     else (case split_colon cs of
             [] \<Rightarrow> [[c]]
           | p # ps \<Rightarrow> (c # p) # ps))"

text \<open>A nullable string in a condition: \<open>null\<close> and the empty string are falsy.\<close>

definition truthy :: "string option \<Rightarrow> bool" where
  "truthy s = (case s of None \<Rightarrow> False | Some v \<Rightarrow> v \<noteq> [])"

definition strOf :: "string option \<Rightarrow> string" where
  "strOf s = (case s of None \<Rightarrow> [] | Some v \<Rightarrow> v)"

fun showNat :: "nat \<Rightarrow> string" where
  "showNat n =
    (if n < 10 then [char_of (48 + n)]
     else showNat (n div 10) @ [char_of (48 + n mod 10)])"

declare showNat.simps [simp del]

definition showInt :: "int \<Rightarrow> string" where
  "showInt i = (if i < 0 then CHR ''-'' # showNat (nat (- i)) else showNat (nat i))"

definition padStart4 :: "string \<Rightarrow> string" where
  "padStart4 s = replicate (4 - length s) CHR ''0'' @ s"

definition monthName :: "int \<Rightarrow> string" where
  "monthName m =
    (if m = 1 then ''January'' else if m = 2 then ''February''
     else if m = 3 then ''March'' else if m = 4 then ''April''
     else if m = 5 then ''May'' else if m = 6 then ''June''
     else if m = 7 then ''July'' else if m = 8 then ''August''
     else if m = 9 then ''September'' else if m = 10 then ''October''
     else if m = 11 then ''November'' else ''December'')"

text \<open>\<open>dayjs(t).format('MMMM D, YYYY')\<close>.\<close>

definition formatDate :: "instant \<Rightarrow> string" where
  "formatDate t =
    monthName (monthOf t) @ '' '' @ showInt (dateOf t) @ '', '' @ padStart4 (showInt (yearOf t))"

definition newline :: string where
  "newline = [CHR 0x0A]"

text \<open>\<open>lines.join('\n')\<close>.\<close>

fun joinLines :: "string list \<Rightarrow> string" where
  "joinLines [] = []"
| "joinLines [l] = l"
| "joinLines (l # ls) = l @ newline @ joinLines ls"

section \<open>The data model (prisma/schema.prisma)\<close>

text \<open>
  The columns the service reads or writes. The keys and time stamps that the database
  generates for settings rows and log rows (\<open>id\<close>, \<open>createdAt\<close>, \<open>updatedAt\<close>,
  \<open>sentAt\<close>) play no part in the service and are left out.
\<close>

record medicine =
  med_id :: int
  name :: string
  expiryDate :: instant
  quantity :: int
  batchNumber :: "string option"
  addedAt :: instant
  notified :: bool
  lastNotificationDate :: "instant option"

record notificationSettings =
  email :: "string option"
  enableEmailNotifications :: bool
  enablePushNotifications :: bool
  notificationTime :: string
  enableMonthlyNotifications :: bool
  enableWeeklyNotifications :: bool
  enableDailyNotifications :: bool
  endpoint :: "string option"
  p256dh :: "string option"
  auth :: "string option"

record notificationLog =
  medicineId :: int
  logType :: string
  channel :: string
  status :: string
  message :: string
  logEmail :: "string option"

section \<open>The world outside the service\<close>

text \<open>
  The service works on two tables (medicines, notification log) and calls four
  collaborators: the settings table, the mail API, the push API and the log table's
  insert. The world records the two tables and, in \<open>trace\<close>, every call the service
  makes, in the order it makes them, whether the call succeeds or throws.
\<close>

datatype event =
    SettingsRead
  | MedicineFindMany
  | EmailSend string string
  | PushSend string string
  | LogCreate notificationLog
  | MedicineUpdateMany "int list"
  | MedicineUpdate int

record world =
  medicines :: "medicine list"
  logs :: "notificationLog list"
  trace :: "event list"

text \<open>
  A thrown JavaScript error, by the call that threw it, with its \<open>message\<close>.
\<close>

datatype js_error =
    TypeError string
  | EmailError string
  | PushError string
  | LogError string

fun errorMessage :: "js_error \<Rightarrow> string" where
  "errorMessage (TypeError m) = m"
| "errorMessage (EmailError m) = m"
| "errorMessage (PushError m) = m"
| "errorMessage (LogError m) = m"

type_synonym 'a result = "(js_error + 'a) \<times> world"

text \<open>
  Sequencing of awaited calls: a throw skips what follows and keeps the world as the
  throwing call left it.
\<close>

definition andThen :: "'a result \<Rightarrow> ('a \<Rightarrow> world \<Rightarrow> 'b result) \<Rightarrow> 'b result" where
  "andThen r f = (case r of (Inl e, w) \<Rightarrow> (Inl e, w) | (Inr x, w) \<Rightarrow> f x w)"

definition emit :: "event \<Rightarrow> world \<Rightarrow> world" where
  "emit ev w = w\<lparr>trace := trace w @ [ev]\<rparr>"

text \<open>
  What the outside answers during one \<open>sendNotification\<close> call, one field for each call
  site of that function: the settings row read at the top of the \<open>try\<close> block and the
  one read in the \<open>catch\<close> block (they may differ, the row is edited from outside), and
  for the mail send, the push send and each of the three log inserts either \<open>None\<close>
  (the call returns) or \<open>Some m\<close> (it throws an error with message \<open>m\<close>).
\<close>

record send_io =
  freshSettings :: "notificationSettings option"
  emailResult :: "string option"
  emailLogResult :: "string option"
  pushResult :: "string option"
  pushLogResult :: "string option"
  handlerSettings :: "notificationSettings option"
  handlerLogResult :: "string option"

text \<open>
  What a whole check cycle takes from outside the service's own code: the settings row
  read first; the answers for the \<open>sendNotification\<close> call of each cadence; the clock
  at the second \<open>dayjs()\<close> of the time check (the first one is the cycle's \<open>now\<close>);
  and JavaScript's \<open>Number\<close> on strings. \<open>Number\<close> is not defined here: it reads
  signs, blanks, fractions, exponents and other radixes and rounds to a double, and the
  time check is stated for whatever it makes of the notification time.
\<close>

record cycle_io =
  initialSettings :: "notificationSettings option"
  dailyIo :: send_io
  weeklyIo :: send_io
  monthlyIo :: send_io
  targetClock :: instant
  jsNumber :: "string \<Rightarrow> jsnum"

section \<open>The collaborators\<close>

text \<open>
  \<open>prisma.medicine.findMany\<close> with a \<open>where\<close> filter and, for the daily query, \<open>orderBy:
  {expiryDate: 'asc'}\<close>. Without \<open>orderBy\<close> the rows come in table order. The query and
  the two updates of the medicine table are taken to succeed.
\<close>

definition findMany :: "(medicine \<Rightarrow> bool) \<Rightarrow> bool \<Rightarrow> world \<Rightarrow> medicine list \<times> world" where
  "findMany whereP orderByExpiry w =
    (let rows = filter whereP (medicines w)
     in (if orderByExpiry then sort_key expiryDate rows else rows, emit MedicineFindMany w))"

text \<open>\<open>prisma.medicine.updateMany({where: {id: {in: ids}}, data: {notified: true, lastNotificationDate: new Date()}})\<close>.\<close>

definition markNotified :: "instant \<Rightarrow> medicine \<Rightarrow> medicine" where
  "markNotified stamp m = m\<lparr>notified := True, lastNotificationDate := Some stamp\<rparr>"

definition updateMany :: "int list \<Rightarrow> instant \<Rightarrow> world \<Rightarrow> world" where
  "updateMany ids stamp w =
    emit (MedicineUpdateMany ids)
      (w\<lparr>medicines := map (\<lambda>m. if med_id m \<in> set ids then markNotified stamp m else m) (medicines w)\<rparr>)"

text \<open>\<open>prisma.medicine.update({where: {id}, data: {notified: true, lastNotificationDate: new Date()}})\<close>.\<close>

definition updateOne :: "int \<Rightarrow> instant \<Rightarrow> world \<Rightarrow> world" where
  "updateOne i stamp w =
    emit (MedicineUpdate i)
      (w\<lparr>medicines := map (\<lambda>m. if med_id m = i then markNotified stamp m else m) (medicines w)\<rparr>)"

text \<open>
  \<open>getNotificationSettings\<close>: the latest settings row, or \<open>null\<close> when the table is
  empty. The row comes from outside (\<open>answer\<close>); the read is recorded.
\<close>

definition getNotificationSettings ::
  "notificationSettings option \<Rightarrow> world \<Rightarrow> notificationSettings option \<times> world" where
  "getNotificationSettings answer w = (answer, emit SettingsRead w)"

text \<open>
  \<open>logNotification\<close>: one insert into the log table. When the insert throws, no row is
  added and the error goes to the caller.
\<close>

definition logNotification ::
  "string option \<Rightarrow> int \<Rightarrow> string \<Rightarrow> string \<Rightarrow> string \<Rightarrow> string \<Rightarrow> string option \<Rightarrow> world
    \<Rightarrow> unit result" where
  "logNotification answer mid ty ch st msg em w =
    (let entry = \<lparr>medicineId = mid, logType = ty, channel = ch, status = st, message = msg,
                   logEmail = em\<rparr>;
         w1 = emit (LogCreate entry) w
     in (case answer of
           None \<Rightarrow> (Inr (), w1\<lparr>logs := logs w1 @ [entry]\<rparr>)
         | Some m \<Rightarrow> (Inl (LogError m), w1)))"

text \<open>
  \<open>sendEmailNotification\<close>: renders the HTML body and calls the mail API; its own
  \<open>catch\<close> prints and rethrows. The rendering and the test-mode redirection of the
  recipient do not reach the caller and are not modelled: the call is recorded with
  the address and the message it was given.
\<close>

definition sendEmailNotification :: "string option \<Rightarrow> string \<Rightarrow> string \<Rightarrow> world \<Rightarrow> unit result" where
  "sendEmailNotification answer addr msg w =
    (let w1 = emit (EmailSend addr msg) w
     in (case answer of None \<Rightarrow> (Inr (), w1) | Some m \<Rightarrow> (Inl (EmailError m), w1)))"

text \<open>\<open>sendPushNotification\<close>: one call of the push API with the stored subscription.\<close>

definition sendPushNotification ::
  "string option \<Rightarrow> notificationSettings \<Rightarrow> string \<Rightarrow> world \<Rightarrow> unit result" where
  "sendPushNotification answer settings msg w =
    (let w1 = emit (PushSend (strOf (endpoint settings)) msg) w
     in (case answer of None \<Rightarrow> (Inr (), w1) | Some m \<Rightarrow> (Inl (PushError m), w1)))"

section \<open>sendNotification\<close>

text \<open>
  Reading a property of \<open>null\<close> throws a \<open>TypeError\<close>; the wording of its message is
  the engine's.
\<close>

definition nullPropertyError :: js_error where
  "nullPropertyError = TypeError ''Cannot read properties of null''"

definition emailStep ::
  "send_io \<Rightarrow> notificationSettings \<Rightarrow> medicine \<Rightarrow> string \<Rightarrow> string \<Rightarrow> world \<Rightarrow> unit result" where
  "emailStep io currentSettings med ty msg w =
    (if enableEmailNotifications currentSettings \<and> truthy (email currentSettings) then
       andThen (sendEmailNotification (emailResult io) (strOf (email currentSettings)) msg w)
         (\<lambda>_. logNotification (emailLogResult io) (med_id med) ty ''EMAIL'' ''success'' msg
                 (email currentSettings))
     else (Inr (), w))"

definition pushStep ::
  "send_io \<Rightarrow> notificationSettings \<Rightarrow> medicine \<Rightarrow> string \<Rightarrow> string \<Rightarrow> world \<Rightarrow> unit result" where
  "pushStep io currentSettings med ty msg w =
    (if enablePushNotifications currentSettings \<and> truthy (endpoint currentSettings) then
       andThen (sendPushNotification (pushResult io) currentSettings msg w)
         (\<lambda>_. logNotification (pushLogResult io) (med_id med) ty ''PUSH'' ''success'' msg None)
     else (Inr (), w))"

text \<open>The \<open>try\<close> block.\<close>

definition sendNotification_try ::
  "send_io \<Rightarrow> instant \<Rightarrow> medicine \<Rightarrow> string \<Rightarrow> string \<Rightarrow> bool \<Rightarrow> world \<Rightarrow> unit result" where
  "sendNotification_try io now med ty msg isConsolidated w =
    (case getNotificationSettings (freshSettings io) w of
       (None, w1) \<Rightarrow> (Inl nullPropertyError, w1)
     | (Some currentSettings, w1) \<Rightarrow>
         andThen (emailStep io currentSettings med ty msg w1)
           (\<lambda>_ w2. andThen (pushStep io currentSettings med ty msg w2)
              (\<lambda>_ w3. if \<not> isConsolidated then (Inr (), updateOne (med_id med) now w3)
                       else (Inr (), w3))))"

text \<open>
  The \<open>catch\<close> block: read the settings again, insert a log row with channel
  \<open>'EMAIL'\<close> and status \<open>'failed'\<close>, rethrow. When the insert throws, its error leaves
  the block in place of the caught one.
\<close>

definition sendNotification_catch ::
  "send_io \<Rightarrow> medicine \<Rightarrow> string \<Rightarrow> js_error \<Rightarrow> world \<Rightarrow> unit result" where
  "sendNotification_catch io med ty err w =
    (case getNotificationSettings (handlerSettings io) w of
       (currentSettings, w1) \<Rightarrow>
         andThen (logNotification (handlerLogResult io) (med_id med) ty ''EMAIL'' ''failed''
                    (errorMessage err)
                    (case currentSettings of None \<Rightarrow> None | Some s \<Rightarrow> email s) w1)
           (\<lambda>_ w2. (Inl err, w2)))"

text \<open>
  \<open>sendNotification(medicine, type, message, settings, isConsolidated)\<close>. The \<open>settings\<close>
  argument is not read by the body. \<open>now\<close> is the clock for \<open>new Date()\<close>.
\<close>

definition sendNotification ::
  "send_io \<Rightarrow> instant \<Rightarrow> medicine \<Rightarrow> string \<Rightarrow> string \<Rightarrow> notificationSettings \<Rightarrow> bool \<Rightarrow> world
    \<Rightarrow> unit result" where
  "sendNotification io now med ty msg settings isConsolidated w =
    (case sendNotification_try io now med ty msg isConsolidated w of
       (Inr u, w1) \<Rightarrow> (Inr u, w1)
     | (Inl err, w1) \<Rightarrow> sendNotification_catch io med ty err w1)"

section \<open>The three cadences\<close>

text \<open>
  One clock reading \<open>now\<close> serves a whole call: the \<open>dayjs()\<close> at its start and the
  \<open>new Date()\<close> of its update.
\<close>

definition summaryLine :: "medicine \<Rightarrow> string" where
  "summaryLine med = ''- '' @ name med @ '' (Expires: '' @ formatDate (expiryDate med) @ '')''"

definition dailyLine :: "instant \<Rightarrow> medicine \<Rightarrow> string" where
  "dailyLine now med =
    ''- '' @ name med @ '' (Expires in '' @ showInt (diffDay (expiryDate med) now) @
    '' days on '' @ formatDate (expiryDate med) @ '')''"

definition monthlyMessage :: "medicine list \<Rightarrow> string" where
  "monthlyMessage ms =
    ''Monthly Medicine Expiry Summary'' @ newline @ newline @
    ''The following medicines will expire this month:'' @ newline @ newline @
    joinLines (map summaryLine ms)"

definition weeklyMessage :: "medicine list \<Rightarrow> string" where
  "weeklyMessage ms =
    ''Weekly Medicine Expiry Summary'' @ newline @ newline @
    ''The following medicines will expire this week:'' @ newline @ newline @
    joinLines (map summaryLine ms)"

definition dailyMessage :: "instant \<Rightarrow> medicine list \<Rightarrow> string" where
  "dailyMessage now ms =
    ''Daily Medicine Expiry Update'' @ newline @ newline @
    ''The following medicines will expire this week:'' @ newline @ newline @
    joinLines (map (dailyLine now) ms)"

definition processMonthlyNotifications ::
  "send_io \<Rightarrow> instant \<Rightarrow> notificationSettings \<Rightarrow> world \<Rightarrow> unit result" where
  "processMonthlyNotifications io now settings w =
    (if \<not> enableMonthlyNotifications settings then (Inr (), w)
     else if dateOf now \<noteq> 1 then (Inr (), w)
     else
       (case findMany (\<lambda>m. now \<le> expiryDate m \<and> expiryDate m \<le> endOfMonth now) False w of
          ([], w1) \<Rightarrow> (Inr (), w1)
        | (first # others, w1) \<Rightarrow>
            sendNotification io now first ''MONTHLY'' (monthlyMessage (first # others))
              settings True w1))"

definition processWeeklyNotifications ::
  "send_io \<Rightarrow> instant \<Rightarrow> notificationSettings \<Rightarrow> world \<Rightarrow> unit result" where
  "processWeeklyNotifications io now settings w =
    (if \<not> enableWeeklyNotifications settings then (Inr (), w)
     else if dayOfWeek now \<noteq> 1 then (Inr (), w)
     else
       (case findMany (\<lambda>m. now \<le> expiryDate m \<and> expiryDate m \<le> endOfWeek now) False w of
          ([], w1) \<Rightarrow> (Inr (), w1)
        | (first # others, w1) \<Rightarrow>
            sendNotification io now first ''WEEKLY'' (weeklyMessage (first # others))
              settings True w1))"

definition processDailyNotifications ::
  "send_io \<Rightarrow> instant \<Rightarrow> notificationSettings \<Rightarrow> world \<Rightarrow> unit result" where
  "processDailyNotifications io now settings w =
    (if \<not> enableDailyNotifications settings then (Inr (), w)
     else
       (case findMany (\<lambda>m. now \<le> expiryDate m \<and> expiryDate m \<le> endOfWeek now \<and> \<not> notified m)
               True w of
          ([], w1) \<Rightarrow> (Inr (), w1)
        | (first # others, w1) \<Rightarrow>
            andThen (sendNotification io now first ''DAILY'' (dailyMessage now (first # others))
                       settings True w1)
              (\<lambda>_ w2. (Inr (), updateMany (map med_id (first # others)) now w2))))"

section \<open>The check cycle and its time gate\<close>

text \<open>
  \<open>const [targetHour, targetMinute] = settings.notificationTime.split(':').map(Number)\<close>:
  an element that the array does not have is \<open>undefined\<close>.
\<close>

definition elemAt :: "jsnum list \<Rightarrow> nat \<Rightarrow> jsnum" where
  "elemAt xs i = (if i < length xs then xs ! i else Undefined)"

definition targetHour :: "(string \<Rightarrow> jsnum) \<Rightarrow> notificationSettings \<Rightarrow> jsnum" where
  "targetHour Number settings =
    elemAt (map Number (split_colon (notificationTime settings))) 0"

definition targetMinute :: "(string \<Rightarrow> jsnum) \<Rightarrow> notificationSettings \<Rightarrow> jsnum" where
  "targetMinute Number settings =
    elemAt (map Number (split_colon (notificationTime settings))) 1"

text \<open>
  \<open>dayjs().hour(targetHour).minute(targetMinute)\<close>, as \<open>diff\<close> reads it: an instant, or
  \<open>NaN\<close> for an invalid date. \<open>now2\<close> is the clock at this \<open>dayjs()\<close>, the second one
  of the time check. A setter given \<open>NaN\<close> makes the date invalid, and an invalid date
  stays invalid. A setter given \<open>undefined\<close> is a getter: \<open>.minute(undefined)\<close> is the
  minute field, a plain number (\<open>NaN\<close> on an invalid date), which \<open>diff\<close> then reads as
  an instant that many milliseconds after the epoch. (\<open>targetHour\<close> is never
  \<open>undefined\<close>, \<open>split\<close> returns at least one piece; that case is given the value
  \<open>NaN\<close>.)
\<close>

definition targetTimeToday :: "instant \<Rightarrow> jsnum \<Rightarrow> jsnum \<Rightarrow> jsnum" where
  "targetTimeToday now2 h m =
    (case h of
       Num hv \<Rightarrow>
         (case setHour now2 hv of
            Num t1 \<Rightarrow>
              (case m of
                 Num mv \<Rightarrow> setMinute t1 mv
               | NaN \<Rightarrow> NaN
               | Undefined \<Rightarrow> Num (minuteOf t1))
          | NaN \<Rightarrow> NaN
          | Undefined \<Rightarrow> NaN)
     | NaN \<Rightarrow> NaN
     | Undefined \<Rightarrow> NaN)"

text \<open>
  \<open>Math.abs(now.diff(targetTimeToday, 'minute'))\<close>, with \<open>now\<close> the clock at the first
  \<open>dayjs()\<close> of the time check and \<open>now2\<close> the clock at the second.
\<close>

definition diffInMinutes ::
  "(string \<Rightarrow> jsnum) \<Rightarrow> instant \<Rightarrow> instant \<Rightarrow> notificationSettings \<Rightarrow> jsnum" where
  "diffInMinutes Number now now2 settings =
    (case targetTimeToday now2 (targetHour Number settings) (targetMinute Number settings) of
       Num t \<Rightarrow> Num (abs (diffMinute now t))
     | NaN \<Rightarrow> NaN
     | Undefined \<Rightarrow> NaN)"

text \<open>\<open>diffInMinutes > 1\<close>: false when \<open>diffInMinutes\<close> is \<open>NaN\<close>.\<close>

definition outsideWindow ::
  "(string \<Rightarrow> jsnum) \<Rightarrow> instant \<Rightarrow> instant \<Rightarrow> notificationSettings \<Rightarrow> bool" where
  "outsideWindow Number now now2 settings =
    (case diffInMinutes Number now now2 settings of
       Num d \<Rightarrow> d > 1 | NaN \<Rightarrow> False | Undefined \<Rightarrow> False)"

definition runCadences ::
  "cycle_io \<Rightarrow> instant \<Rightarrow> notificationSettings \<Rightarrow> world \<Rightarrow> unit result" where
  "runCadences io now settings w =
    andThen (if enableDailyNotifications settings
             then processDailyNotifications (dailyIo io) now settings w else (Inr (), w))
      (\<lambda>_ w1. andThen (if enableWeeklyNotifications settings
                        then processWeeklyNotifications (weeklyIo io) now settings w1
                        else (Inr (), w1))
         (\<lambda>_ w2. if enableMonthlyNotifications settings
                  then processMonthlyNotifications (monthlyIo io) now settings w2
                  else (Inr (), w2)))"

definition checkAndSendNotifications :: "cycle_io \<Rightarrow> instant \<Rightarrow> bool \<Rightarrow> world \<Rightarrow> unit result" where
  "checkAndSendNotifications io now forceCheck w =
    (case getNotificationSettings (initialSettings io) w of
       (None, w1) \<Rightarrow> (Inr (), w1)
     | (Some settings, w1) \<Rightarrow>
         if \<not> forceCheck \<and> outsideWindow (jsNumber io) now (targetClock io) settings
         then (Inr (), w1)
         else runCadences io now settings w1)"

section \<open>Observations used in the statements\<close>

text \<open>
  The rows the three queries return, the calls a run added to the trace, and the
  channels of the dispatch calls among them, in order.
\<close>

definition dailySelection :: "instant \<Rightarrow> world \<Rightarrow> medicine list" where
  "dailySelection now w =
    fst (findMany (\<lambda>m. now \<le> expiryDate m \<and> expiryDate m \<le> endOfWeek now \<and> \<not> notified m) True w)"

definition weeklySelection :: "instant \<Rightarrow> world \<Rightarrow> medicine list" where
  "weeklySelection now w =
    fst (findMany (\<lambda>m. now \<le> expiryDate m \<and> expiryDate m \<le> endOfWeek now) False w)"

definition monthlySelection :: "instant \<Rightarrow> world \<Rightarrow> medicine list" where
  "monthlySelection now w =
    fst (findMany (\<lambda>m. now \<le> expiryDate m \<and> expiryDate m \<le> endOfMonth now) False w)"

definition newEvents :: "world \<Rightarrow> world \<Rightarrow> event list" where
  "newEvents w w' = drop (length (trace w)) (trace w')"

fun dispatchChannels :: "event list \<Rightarrow> string list" where
  "dispatchChannels [] = []"
| "dispatchChannels (EmailSend a m # evs) = ''EMAIL'' # dispatchChannels evs"
| "dispatchChannels (PushSend a m # evs) = ''PUSH'' # dispatchChannels evs"
| "dispatchChannels (ev # evs) = dispatchChannels evs"

fun isMedicineWrite :: "event \<Rightarrow> bool" where
  "isMedicineWrite (MedicineUpdateMany ids) = True"
| "isMedicineWrite (MedicineUpdate i) = True"
| "isMedicineWrite ev = False"

fun isMedicineRead :: "event \<Rightarrow> bool" where
  "isMedicineRead MedicineFindMany = True"
| "isMedicineRead ev = False"

text \<open>
  The cycle passes the time gate when \<open>checkAndSendNotifications\<close> does not return at
  its time check.
\<close>

definition passesGate ::
  "(string \<Rightarrow> jsnum) \<Rightarrow> bool \<Rightarrow> instant \<Rightarrow> instant \<Rightarrow> notificationSettings \<Rightarrow> bool" where
  "passesGate Number forceCheck now now2 settings =
    (\<not> (\<not> forceCheck \<and> outsideWindow Number now now2 settings))"

text \<open>
  Today's instant of a target time \<open>h:m\<close>, as the specification speaks of it: the
  day of \<open>t\<close> at \<open>h:m:00.000\<close>.
\<close>

definition todayAt :: "instant \<Rightarrow> int \<Rightarrow> int \<Rightarrow> instant" where
  "todayAt t h m = startOfDay t + h * MS_HOUR + m * MS_MINUTE"

text \<open>A medicine row with the two notification columns blanked: all its other columns.\<close>

definition otherFields :: "medicine \<Rightarrow> medicine" where
  "otherFields m = m\<lparr>notified := False, lastNotificationDate := None\<rparr>"

text \<open>The conditions under which \<open>sendNotification\<close> calls a channel.\<close>

definition emailConfigured :: "notificationSettings \<Rightarrow> bool" where
  "emailConfigured s = (enableEmailNotifications s \<and> truthy (email s))"

definition pushConfigured :: "notificationSettings \<Rightarrow> bool" where
  "pushConfigured s = (enablePushNotifications s \<and> truthy (endpoint s))"

section \<open>A sample installation\<close>

text \<open>
  Monday 2024-01-01, 09:00:30: a Monday that is also the first of a month. Two
  medicines expire on Wednesday and on Saturday of that week; neither has been notified.
\<close>

definition ex_now :: instant where
  "ex_now = 1704099630000"

definition ex_aspirin :: medicine where
  "ex_aspirin =
    \<lparr>med_id = 1, name = ''Aspirin'', expiryDate = 1704272430000, quantity = 10,
     batchNumber = None, addedAt = 0, notified = False, lastNotificationDate = None\<rparr>"

definition ex_ibuprofen :: medicine where
  "ex_ibuprofen =
    \<lparr>med_id = 2, name = ''Ibuprofen'', expiryDate = 1704531630000, quantity = 5,
     batchNumber = Some ''B7'', addedAt = 0, notified = False, lastNotificationDate = None\<rparr>"

definition ex_world :: world where
  "ex_world = \<lparr>medicines = [ex_ibuprofen, ex_aspirin], logs = [], trace = []\<rparr>"

definition ex_settings :: notificationSettings where
  "ex_settings =
    \<lparr>email = Some ''a@x.com'', enableEmailNotifications = True,
     enablePushNotifications = True, notificationTime = ''09:00'',
     enableMonthlyNotifications = True, enableWeeklyNotifications = True,
     enableDailyNotifications = True, endpoint = Some ''https://push.example/1'',
     p256dh = Some ''k1'', auth = Some ''k2''\<rparr>"

text \<open>Every call from outside answers without an error.\<close>

definition ex_io :: send_io where
  "ex_io =
    \<lparr>freshSettings = Some ex_settings, emailResult = None, emailLogResult = None,
     pushResult = None, pushLogResult = None, handlerSettings = Some ex_settings,
     handlerLogResult = None\<rparr>"

text \<open>The same installation with one collaborator out of order, or a setting changed.\<close>

definition ex_io_email_down :: send_io where
  "ex_io_email_down = ex_io\<lparr>emailResult := Some ''smtp down''\<rparr>"

definition ex_io_push_down :: send_io where
  "ex_io_push_down = ex_io\<lparr>pushResult := Some ''410 Gone''\<rparr>"

definition ex_io_log_down :: send_io where
  "ex_io_log_down = ex_io\<lparr>emailLogResult := Some ''database is locked''\<rparr>"

definition ex_io_push_log_down :: send_io where
  "ex_io_push_log_down = ex_io\<lparr>pushLogResult := Some ''database is locked''\<rparr>"

definition ex_io_all_down :: send_io where
  "ex_io_all_down =
    ex_io\<lparr>emailResult := Some ''smtp down'', handlerLogResult := Some ''database is locked''\<rparr>"

definition ex_io_log_all_down :: send_io where
  "ex_io_log_all_down =
    ex_io\<lparr>emailLogResult := Some ''database is locked'',
      handlerLogResult := Some ''disk full''\<rparr>"

definition ex_io_settings_gone :: send_io where
  "ex_io_settings_gone = ex_io\<lparr>freshSettings := None, handlerSettings := None\<rparr>"

definition ex_settings_push_only :: notificationSettings where
  "ex_settings_push_only = ex_settings\<lparr>enableEmailNotifications := False\<rparr>"

definition ex_io_push_only_down :: send_io where
  "ex_io_push_only_down =
    ex_io\<lparr>freshSettings := Some ex_settings_push_only, pushResult := Some ''410 Gone'',
      handlerSettings := Some ex_settings_push_only\<rparr>"

definition ex_settings_silent :: notificationSettings where
  "ex_settings_silent = ex_settings\<lparr>enableEmailNotifications := False, endpoint := None\<rparr>"

definition ex_io_silent :: send_io where
  "ex_io_silent = ex_io\<lparr>freshSettings := Some ex_settings_silent\<rparr>"

definition ex_settings_no_daily :: notificationSettings where
  "ex_settings_no_daily = ex_settings\<lparr>enableDailyNotifications := False\<rparr>"

text \<open>
  What \<open>Number\<close> makes of the two pieces of the sample's notification time, \<open>09:00\<close>;
  the sample hands it no other string.
\<close>

definition ex_Number :: "string \<Rightarrow> jsnum" where
  "ex_Number s = (if s = ''09'' then Num 9 else if s = ''00'' then Num 0 else NaN)"

definition ex_cycle :: cycle_io where
  "ex_cycle =
    \<lparr>initialSettings = Some ex_settings, dailyIo = ex_io, weeklyIo = ex_io, monthlyIo = ex_io,
     targetClock = ex_now, jsNumber = ex_Number\<rparr>"

definition ex_cycle_no_daily :: cycle_io where
  "ex_cycle_no_daily = ex_cycle\<lparr>initialSettings := Some ex_settings_no_daily\<rparr>"

definition ex_cycle_settings_gone :: cycle_io where
  "ex_cycle_settings_gone = ex_cycle\<lparr>dailyIo := ex_io_settings_gone\<rparr>"

definition ex_cycle_unconfigured :: cycle_io where
  "ex_cycle_unconfigured = ex_cycle\<lparr>initialSettings := None\<rparr>"

definition ex_empty_world :: world where
  "ex_empty_world = \<lparr>medicines = [], logs = [], trace = []\<rparr>"

text \<open>Tuesday 2024-01-02, 09:00:30.\<close>

definition ex_tuesday :: instant where
  "ex_tuesday = 1704186030000"

section \<open>Basic facts\<close>

lemma andThen_Inl [simp]: "andThen (Inl e, w) f = (Inl e, w)"
  by (simp add: andThen_def)

lemma andThen_Inr [simp]: "andThen (Inr x, w) f = f x w"
  by (simp add: andThen_def)

lemma medicines_emit [simp]: "medicines (emit ev w) = medicines w"
  by (simp add: emit_def)

lemma logs_emit [simp]: "logs (emit ev w) = logs w"
  by (simp add: emit_def)

lemma trace_emit [simp]: "trace (emit ev w) = trace w @ [ev]"
  by (simp add: emit_def)

lemma newEvents_append [simp]: "trace w' = trace w @ evs \<Longrightarrow> newEvents w w' = evs"
  by (simp add: newEvents_def)

lemma newEvents_same [simp]: "newEvents w w = []"
  by (simp add: newEvents_def)

section \<open>What one call of sendNotification does\<close>

lemma emailStep_simps:
  "emailConfigured cs \<Longrightarrow> emailStep io cs med ty msg w =
     andThen (sendEmailNotification (emailResult io) (strOf (email cs)) msg w)
       (\<lambda>_. logNotification (emailLogResult io) (med_id med) ty ''EMAIL'' ''success'' msg (email cs))"
  "\<not> emailConfigured cs \<Longrightarrow> emailStep io cs med ty msg w = (Inr (), w)"
  by (auto simp: emailStep_def emailConfigured_def)

lemma pushStep_simps:
  "pushConfigured cs \<Longrightarrow> pushStep io cs med ty msg w =
     andThen (sendPushNotification (pushResult io) cs msg w)
       (\<lambda>_. logNotification (pushLogResult io) (med_id med) ty ''PUSH'' ''success'' msg None)"
  "\<not> pushConfigured cs \<Longrightarrow> pushStep io cs med ty msg w = (Inr (), w)"
  by (auto simp: pushStep_def pushConfigured_def)

lemmas send_defs = sendNotification_def sendNotification_try_def sendNotification_catch_def
  emailStep_simps pushStep_simps sendEmailNotification_def sendPushNotification_def
  logNotification_def getNotificationSettings_def

lemma sendNotification_email_throws:
  assumes "freshSettings io = Some cs" and "emailConfigured cs" and "emailResult io = Some e"
  shows "sendNotification io now med ty msg st c w =
    (case handlerLogResult io of None \<Rightarrow> Inl (EmailError e) | Some e2 \<Rightarrow> Inl (LogError e2),
     w\<lparr>trace := trace w @
          [SettingsRead, EmailSend (strOf (email cs)) msg, SettingsRead,
           LogCreate \<lparr>medicineId = med_id med, logType = ty, channel = ''EMAIL'',
             status = ''failed'', message = e,
             logEmail = (case handlerSettings io of None \<Rightarrow> None | Some s \<Rightarrow> email s)\<rparr>],
        logs := (case handlerLogResult io of
                   None \<Rightarrow> logs w @
                     [\<lparr>medicineId = med_id med, logType = ty, channel = ''EMAIL'',
                       status = ''failed'', message = e,
                       logEmail = (case handlerSettings io of None \<Rightarrow> None | Some s \<Rightarrow> email s)\<rparr>]
                 | Some e2 \<Rightarrow> logs w)\<rparr>)"
  using assms
  by (cases "handlerLogResult io") (simp_all add: send_defs Let_def emit_def)

lemma sendNotification_push_throws:
  assumes "freshSettings io = Some cs"
    and "\<not> emailConfigured cs \<or> (emailResult io = None \<and> emailLogResult io = None)"
    and "pushConfigured cs" and "pushResult io = Some e"
  shows "sendNotification io now med ty msg st c w =
    (case handlerLogResult io of None \<Rightarrow> Inl (PushError e) | Some e2 \<Rightarrow> Inl (LogError e2),
     w\<lparr>trace := trace w @ [SettingsRead] @
          (if emailConfigured cs
           then [EmailSend (strOf (email cs)) msg,
                 LogCreate \<lparr>medicineId = med_id med, logType = ty, channel = ''EMAIL'',
                   status = ''success'', message = msg, logEmail = email cs\<rparr>]
           else []) @
          [PushSend (strOf (endpoint cs)) msg, SettingsRead,
           LogCreate \<lparr>medicineId = med_id med, logType = ty, channel = ''EMAIL'',
             status = ''failed'', message = e,
             logEmail = (case handlerSettings io of None \<Rightarrow> None | Some s \<Rightarrow> email s)\<rparr>],
        logs := logs w @
          (if emailConfigured cs
           then [\<lparr>medicineId = med_id med, logType = ty, channel = ''EMAIL'',
                   status = ''success'', message = msg, logEmail = email cs\<rparr>]
           else []) @
          (case handlerLogResult io of
             None \<Rightarrow> [\<lparr>medicineId = med_id med, logType = ty, channel = ''EMAIL'',
                       status = ''failed'', message = e,
                       logEmail = (case handlerSettings io of None \<Rightarrow> None | Some s \<Rightarrow> email s)\<rparr>]
           | Some e2 \<Rightarrow> [])\<rparr>)"
  using assms
  by (cases "handlerLogResult io"; cases "emailConfigured cs")
    (simp_all add: send_defs Let_def emit_def)

lemma sendNotification_email_log_throws:
  assumes "freshSettings io = Some cs" and "emailConfigured cs"
    and "emailResult io = None" and "emailLogResult io = Some e"
  shows "sendNotification io now med ty msg st c w =
    (case handlerLogResult io of None \<Rightarrow> Inl (LogError e) | Some e2 \<Rightarrow> Inl (LogError e2),
     w\<lparr>trace := trace w @
          [SettingsRead, EmailSend (strOf (email cs)) msg,
           LogCreate \<lparr>medicineId = med_id med, logType = ty, channel = ''EMAIL'',
             status = ''success'', message = msg, logEmail = email cs\<rparr>,
           SettingsRead,
           LogCreate \<lparr>medicineId = med_id med, logType = ty, channel = ''EMAIL'',
             status = ''failed'', message = e,
             logEmail = (case handlerSettings io of None \<Rightarrow> None | Some s \<Rightarrow> email s)\<rparr>],
        logs := (case handlerLogResult io of
                   None \<Rightarrow> logs w @
                     [\<lparr>medicineId = med_id med, logType = ty, channel = ''EMAIL'',
                       status = ''failed'', message = e,
                       logEmail = (case handlerSettings io of None \<Rightarrow> None | Some s \<Rightarrow> email s)\<rparr>]
                 | Some e2 \<Rightarrow> logs w)\<rparr>)"
  using assms
  by (cases "handlerLogResult io") (simp_all add: send_defs Let_def emit_def)

lemma sendNotification_null_settings:
  assumes "freshSettings io = None"
  shows "sendNotification io now med ty msg st c w =
    (case handlerLogResult io of None \<Rightarrow> Inl nullPropertyError | Some e2 \<Rightarrow> Inl (LogError e2),
     w\<lparr>trace := trace w @
          [SettingsRead, SettingsRead,
           LogCreate \<lparr>medicineId = med_id med, logType = ty, channel = ''EMAIL'',
             status = ''failed'', message = errorMessage nullPropertyError,
             logEmail = (case handlerSettings io of None \<Rightarrow> None | Some s \<Rightarrow> email s)\<rparr>],
        logs := (case handlerLogResult io of
                   None \<Rightarrow> logs w @
                     [\<lparr>medicineId = med_id med, logType = ty, channel = ''EMAIL'',
                       status = ''failed'', message = errorMessage nullPropertyError,
                       logEmail = (case handlerSettings io of None \<Rightarrow> None | Some s \<Rightarrow> email s)\<rparr>]
                 | Some e2 \<Rightarrow> logs w)\<rparr>)"
  using assms
  by (cases "handlerLogResult io") (simp_all add: send_defs Let_def emit_def)

lemma sendNotification_no_channel:
  assumes "freshSettings io = Some cs" and "\<not> emailConfigured cs" and "\<not> pushConfigured cs"
  shows "sendNotification io now med ty msg st True w = (Inr (), emit SettingsRead w)"
  using assms by (simp add: send_defs)

lemma sendNotification_channels:
  "dispatchChannels (newEvents w (snd (sendNotification io now med ty msg st c w)))
     \<in> {[], [''EMAIL''], [''PUSH''], [''EMAIL'', ''PUSH'']}"
proof (cases "freshSettings io")
  case None
  then show ?thesis
    by (cases "handlerLogResult io") (simp_all add: send_defs Let_def)
next
  case (Some cs)
  then show ?thesis
    by (cases "emailConfigured cs"; cases "pushConfigured cs"; cases "emailResult io";
        cases "emailLogResult io"; cases "pushResult io"; cases "pushLogResult io";
        cases "handlerLogResult io"; cases c)
      (simp_all add: send_defs Let_def updateOne_def)
qed

lemma sendNotification_consolidated_medicines:
  "medicines (snd (sendNotification io now med ty msg st True w)) = medicines w"
proof (cases "freshSettings io")
  case None
  then show ?thesis
    by (cases "handlerLogResult io") (simp_all add: send_defs Let_def)
next
  case (Some cs)
  then show ?thesis
    by (cases "emailConfigured cs"; cases "pushConfigured cs"; cases "emailResult io";
        cases "emailLogResult io"; cases "pushResult io"; cases "pushLogResult io";
        cases "handlerLogResult io")
      (simp_all add: send_defs Let_def)
qed

lemma sendNotification_all_ok:
  assumes "freshSettings io = Some cs"
    and "emailResult io = None" and "emailLogResult io = None"
    and "pushResult io = None" and "pushLogResult io = None"
  shows "sendNotification io now med ty msg st True w =
    (Inr (),
     w\<lparr>trace := trace w @ [SettingsRead] @
          (if emailConfigured cs
           then [EmailSend (strOf (email cs)) msg,
                 LogCreate \<lparr>medicineId = med_id med, logType = ty, channel = ''EMAIL'',
                   status = ''success'', message = msg, logEmail = email cs\<rparr>]
           else []) @
          (if pushConfigured cs
           then [PushSend (strOf (endpoint cs)) msg,
                 LogCreate \<lparr>medicineId = med_id med, logType = ty, channel = ''PUSH'',
                   status = ''success'', message = msg, logEmail = None\<rparr>]
           else []),
        logs := logs w @
          (if emailConfigured cs
           then [\<lparr>medicineId = med_id med, logType = ty, channel = ''EMAIL'',
                   status = ''success'', message = msg, logEmail = email cs\<rparr>]
           else []) @
          (if pushConfigured cs
           then [\<lparr>medicineId = med_id med, logType = ty, channel = ''PUSH'',
                   status = ''success'', message = msg, logEmail = None\<rparr>]
           else [])\<rparr>)"
  using assms
  by (cases "emailConfigured cs"; cases "pushConfigured cs")
    (simp_all add: send_defs Let_def emit_def)

lemma sendNotification_push_log_throws:
  assumes "freshSettings io = Some cs"
    and "\<not> emailConfigured cs \<or> (emailResult io = None \<and> emailLogResult io = None)"
    and "pushConfigured cs" and "pushResult io = None" and "pushLogResult io = Some e"
  shows "sendNotification io now med ty msg st c w =
    (case handlerLogResult io of None \<Rightarrow> Inl (LogError e) | Some e2 \<Rightarrow> Inl (LogError e2),
     w\<lparr>trace := trace w @ [SettingsRead] @
          (if emailConfigured cs
           then [EmailSend (strOf (email cs)) msg,
                 LogCreate \<lparr>medicineId = med_id med, logType = ty, channel = ''EMAIL'',
                   status = ''success'', message = msg, logEmail = email cs\<rparr>]
           else []) @
          [PushSend (strOf (endpoint cs)) msg,
           LogCreate \<lparr>medicineId = med_id med, logType = ty, channel = ''PUSH'',
             status = ''success'', message = msg, logEmail = None\<rparr>,
           SettingsRead,
           LogCreate \<lparr>medicineId = med_id med, logType = ty, channel = ''EMAIL'',
             status = ''failed'', message = e,
             logEmail = (case handlerSettings io of None \<Rightarrow> None | Some s \<Rightarrow> email s)\<rparr>],
        logs := logs w @
          (if emailConfigured cs
           then [\<lparr>medicineId = med_id med, logType = ty, channel = ''EMAIL'',
                   status = ''success'', message = msg, logEmail = email cs\<rparr>]
           else []) @
          (case handlerLogResult io of
             None \<Rightarrow> [\<lparr>medicineId = med_id med, logType = ty, channel = ''EMAIL'',
                       status = ''failed'', message = e,
                       logEmail = (case handlerSettings io of None \<Rightarrow> None | Some s \<Rightarrow> email s)\<rparr>]
           | Some e2 \<Rightarrow> [])\<rparr>)"
  using assms
  by (cases "handlerLogResult io"; cases "emailConfigured cs")
    (simp_all add: send_defs Let_def emit_def)

section \<open>What the cadences do\<close>

lemma findMany_eq: "findMany p b w =
  (if b then sort_key expiryDate (filter p (medicines w)) else filter p (medicines w),
   emit MedicineFindMany w)"
  by (simp add: findMany_def Let_def)

lemma processDaily_disabled:
  "\<not> enableDailyNotifications st \<Longrightarrow> processDailyNotifications io now st w = (Inr (), w)"
  by (simp add: processDailyNotifications_def)

lemma processDaily_empty:
  "enableDailyNotifications st \<Longrightarrow> dailySelection now w = [] \<Longrightarrow>
   processDailyNotifications io now st w = (Inr (), emit MedicineFindMany w)"
  by (simp add: processDailyNotifications_def dailySelection_def findMany_eq)

lemma processDaily_send:
  "enableDailyNotifications st \<Longrightarrow> dailySelection now w = first # others \<Longrightarrow>
   processDailyNotifications io now st w =
     andThen (sendNotification io now first ''DAILY'' (dailyMessage now (first # others)) st True
                (emit MedicineFindMany w))
       (\<lambda>_ w2. (Inr (), updateMany (map med_id (first # others)) now w2))"
  by (simp add: processDailyNotifications_def dailySelection_def findMany_eq)

lemma processWeekly_skip:
  "\<not> enableWeeklyNotifications st \<or> dayOfWeek now \<noteq> 1 \<Longrightarrow>
   processWeeklyNotifications io now st w = (Inr (), w)"
  by (auto simp: processWeeklyNotifications_def)

lemma processWeekly_empty:
  "enableWeeklyNotifications st \<Longrightarrow> dayOfWeek now = 1 \<Longrightarrow> weeklySelection now w = [] \<Longrightarrow>
   processWeeklyNotifications io now st w = (Inr (), emit MedicineFindMany w)"
  by (simp add: processWeeklyNotifications_def weeklySelection_def findMany_eq)

lemma processWeekly_send:
  "enableWeeklyNotifications st \<Longrightarrow> dayOfWeek now = 1 \<Longrightarrow>
   weeklySelection now w = first # others \<Longrightarrow>
   processWeeklyNotifications io now st w =
     sendNotification io now first ''WEEKLY'' (weeklyMessage (first # others)) st True
       (emit MedicineFindMany w)"
  by (simp add: processWeeklyNotifications_def weeklySelection_def findMany_eq)

lemma processMonthly_skip:
  "\<not> enableMonthlyNotifications st \<or> dateOf now \<noteq> 1 \<Longrightarrow>
   processMonthlyNotifications io now st w = (Inr (), w)"
  by (auto simp: processMonthlyNotifications_def)

lemma processMonthly_empty:
  "enableMonthlyNotifications st \<Longrightarrow> dateOf now = 1 \<Longrightarrow> monthlySelection now w = [] \<Longrightarrow>
   processMonthlyNotifications io now st w = (Inr (), emit MedicineFindMany w)"
  by (simp add: processMonthlyNotifications_def monthlySelection_def findMany_eq)

lemma processMonthly_send:
  "enableMonthlyNotifications st \<Longrightarrow> dateOf now = 1 \<Longrightarrow>
   monthlySelection now w = first # others \<Longrightarrow>
   processMonthlyNotifications io now st w =
     sendNotification io now first ''MONTHLY'' (monthlyMessage (first # others)) st True
       (emit MedicineFindMany w)"
  by (simp add: processMonthlyNotifications_def monthlySelection_def findMany_eq)

lemma processWeekly_medicines:
  "medicines (snd (processWeeklyNotifications io now st w)) = medicines w"
proof (cases "\<not> enableWeeklyNotifications st \<or> dayOfWeek now \<noteq> 1")
  case True
  then show ?thesis by (simp add: processWeekly_skip)
next
  case False
  then show ?thesis
    by (cases "weeklySelection now w")
      (simp_all add: processWeekly_empty processWeekly_send sendNotification_consolidated_medicines)
qed

lemma processMonthly_medicines:
  "medicines (snd (processMonthlyNotifications io now st w)) = medicines w"
proof (cases "\<not> enableMonthlyNotifications st \<or> dateOf now \<noteq> 1")
  case True
  then show ?thesis by (simp add: processMonthly_skip)
next
  case False
  then show ?thesis
    by (cases "monthlySelection now w")
      (simp_all add: processMonthly_empty processMonthly_send sendNotification_consolidated_medicines)
qed


lemma medicines_updateMany:
  "medicines (updateMany ids now w) =
     map (\<lambda>m. if med_id m \<in> set ids
              then m\<lparr>notified := True, lastNotificationDate := Some now\<rparr> else m) (medicines w)"
  by (simp add: updateMany_def markNotified_def)

lemma processDaily_medicines:
  assumes "enableDailyNotifications st"
  shows "medicines (snd (processDailyNotifications io now st w)) =
    (if fst (processDailyNotifications io now st w) = Inr ()
     then map (\<lambda>m. if med_id m \<in> med_id ` set (dailySelection now w)
                    then m\<lparr>notified := True, lastNotificationDate := Some now\<rparr> else m)
            (medicines w)
     else medicines w)"
proof (cases "dailySelection now w")
  case Nil
  with assms show ?thesis by (simp add: processDaily_empty)
next
  case (Cons first others)
  obtain r w2 where s: "sendNotification io now first ''DAILY'' (dailyMessage now (first # others))
      st True (emit MedicineFindMany w) = (r, w2)"
    by (cases "sendNotification io now first ''DAILY'' (dailyMessage now (first # others))
      st True (emit MedicineFindMany w)")
  have m: "medicines w2 = medicines w"
    using sendNotification_consolidated_medicines
      [of io now first "''DAILY''" "dailyMessage now (first # others)" st "emit MedicineFindMany w"]
    by (simp add: s)
  have i: "set (map med_id (first # others)) = med_id ` set (dailySelection now w)"
    by (simp add: Cons)
  show ?thesis
  proof (cases r)
    case (Inl e)
    with assms Cons m show ?thesis
      by (simp add: processDaily_send s)
  next
    case (Inr u)
    have "processDailyNotifications io now st w =
        (Inr (), updateMany (map med_id (first # others)) now w2)"
      using assms Cons Inr by (simp add: processDaily_send s)
    then show ?thesis
      by (simp only: fst_conv snd_conv medicines_updateMany i m refl if_True)
  qed
qed

lemma processDaily_result:
  assumes "enableDailyNotifications st" and "dailySelection now w \<noteq> []"
  shows "fst (processDailyNotifications io now st w) =
    fst (sendNotification io now (hd (dailySelection now w)) ''DAILY''
           (dailyMessage now (dailySelection now w)) st True (emit MedicineFindMany w))"
proof (cases "dailySelection now w")
  case Nil
  with assms show ?thesis by simp
next
  case (Cons first others)
  obtain r w2 where s: "sendNotification io now first ''DAILY'' (dailyMessage now (first # others))
      st True (emit MedicineFindMany w) = (r, w2)"
    by (cases "sendNotification io now first ''DAILY'' (dailyMessage now (first # others))
      st True (emit MedicineFindMany w)")
  show ?thesis
    using assms Cons
    by (cases r) (simp_all add: processDaily_send s)
qed

lemma dailySelection_eq:
  "dailySelection now w =
     sort_key expiryDate
       (filter (\<lambda>m. now \<le> expiryDate m \<and> expiryDate m \<le> endOfWeek now \<and> \<not> notified m)
          (medicines w))"
  by (simp add: dailySelection_def findMany_eq)

lemma logs_updateMany [simp]: "logs (updateMany ids now w) = logs w"
  by (simp add: updateMany_def)

lemma trace_updateMany [simp]:
  "trace (updateMany ids now w) = trace w @ [MedicineUpdateMany ids]"
  by (simp add: updateMany_def)

lemma weeklySelection_eq:
  "weeklySelection now w =
     filter (\<lambda>m. now \<le> expiryDate m \<and> expiryDate m \<le> endOfWeek now) (medicines w)"
  by (simp add: weeklySelection_def findMany_eq)

lemma monthlySelection_eq:
  "monthlySelection now w =
     filter (\<lambda>m. now \<le> expiryDate m \<and> expiryDate m \<le> endOfMonth now) (medicines w)"
  by (simp add: monthlySelection_def findMany_eq)

text \<open>Sequencing keeps what every step keeps.\<close>

lemma andThen_keeps:
  assumes "Q (snd r)" and "\<And>x w. Q w \<Longrightarrow> Q (snd (f x w))"
  shows "Q (snd (andThen r f))"
proof (cases r)
  case (Pair a w)
  with assms show ?thesis
    by (cases a) simp_all
qed

lemma otherFields_mark [simp]:
  "otherFields (m\<lparr>notified := True, lastNotificationDate := Some t\<rparr>) = otherFields m"
  by (simp add: otherFields_def)

lemma processDaily_otherFields:
  "map otherFields (medicines (snd (processDailyNotifications io now st w))) =
   map otherFields (medicines w)"
proof (cases "enableDailyNotifications st")
  case True
  show ?thesis
    by (simp add: processDaily_medicines [OF True] o_def if_distrib [of otherFields])
next
  case False
  then show ?thesis
    by (simp add: processDaily_disabled)
qed

lemma runCadences_otherFields:
  "map otherFields (medicines (snd (runCadences io now st w))) = map otherFields (medicines w)"
  unfolding runCadences_def
  by (intro andThen_keeps [where Q = "\<lambda>w'. map otherFields (medicines w') = map otherFields (medicines w)"])
    (simp_all add: processDaily_otherFields processWeekly_medicines processMonthly_medicines)

lemma runCadences_no_daily:
  "\<not> enableDailyNotifications st \<Longrightarrow> medicines (snd (runCadences io now st w)) = medicines w"
  unfolding runCadences_def
  by (intro andThen_keeps [where Q = "\<lambda>w'. medicines w' = medicines w"])
    (simp_all add: processWeekly_medicines processMonthly_medicines)

lemma checkAndSend_otherFields:
  "map otherFields (medicines (snd (checkAndSendNotifications io now force w))) =
   map otherFields (medicines w)"
  by (cases "initialSettings io")
    (simp_all add: checkAndSendNotifications_def getNotificationSettings_def
      runCadences_otherFields)

lemma checkAndSend_no_daily:
  "(case initialSettings io of None \<Rightarrow> True | Some s \<Rightarrow> \<not> enableDailyNotifications s) \<Longrightarrow>
   medicines (snd (checkAndSendNotifications io now force w)) = medicines w"
  by (cases "initialSettings io")
    (simp_all add: checkAndSendNotifications_def getNotificationSettings_def
      runCadences_no_daily)

lemma dispatch_after_query [simp]:
  "dispatchChannels (newEvents w (emit MedicineFindMany w)) = []"
  by (simp add: newEvents_append [of _ _ "[MedicineFindMany]"])

lemma dailySelection_subset: "m \<in> set (dailySelection now w) \<Longrightarrow> m \<in> set (medicines w) \<and> \<not> notified m"
  by (simp add: dailySelection_eq)

lemma processDaily_send_fails:
  assumes "enableDailyNotifications st" and "dailySelection now w \<noteq> []"
    and "isl (fst (sendNotification io now (hd (dailySelection now w)) ''DAILY''
           (dailyMessage now (dailySelection now w)) st True (emit MedicineFindMany w)))"
  shows "processDailyNotifications io now st w =
     sendNotification io now (hd (dailySelection now w)) ''DAILY''
       (dailyMessage now (dailySelection now w)) st True (emit MedicineFindMany w)"
proof -
  obtain first others where sel: "dailySelection now w = first # others"
    using assms(2) by (cases "dailySelection now w") auto
  obtain r w2 where s: "sendNotification io now first ''DAILY'' (dailyMessage now (first # others))
      st True (emit MedicineFindMany w) = (r, w2)"
    by (cases "sendNotification io now first ''DAILY'' (dailyMessage now (first # others))
      st True (emit MedicineFindMany w)")
  from assms(3) obtain e where "r = Inl e"
    by (cases r) (simp_all add: sel s)
  then show ?thesis
    by (simp add: processDaily_send [OF assms(1) sel] sel s)
qed

section \<open>Facts about the sample installation\<close>

lemma ex_calendar:
  "dayOfWeek ex_now = 1" "dateOf ex_now = 1"
  "endOfWeek ex_now = 1704585599999" "endOfMonth ex_now = 1706745599999"
  "dayOfWeek ex_tuesday = 2" "dateOf ex_tuesday = 2"
  by code_simp+

lemma ex_dailySelection: "dailySelection ex_now ex_world = [ex_aspirin, ex_ibuprofen]"
  by (simp add: dailySelection_eq ex_calendar ex_world_def)
    (simp add: ex_aspirin_def ex_ibuprofen_def ex_now_def)

lemma ex_weeklySelection:
  "medicines w = medicines ex_world \<Longrightarrow> weeklySelection ex_now w = [ex_ibuprofen, ex_aspirin]"
  by (simp add: weeklySelection_eq ex_calendar ex_world_def)
    (simp add: ex_aspirin_def ex_ibuprofen_def ex_now_def)

lemma ex_monthlySelection:
  "medicines w = medicines ex_world \<Longrightarrow> monthlySelection ex_now w = [ex_ibuprofen, ex_aspirin]"
  by (simp add: monthlySelection_eq ex_calendar ex_world_def)
    (simp add: ex_aspirin_def ex_ibuprofen_def ex_now_def)

lemma ex_inside_window: "\<not> outsideWindow ex_Number ex_now ex_now ex_settings"
  by code_simp

lemma ex_target:
  "targetHour ex_Number ex_settings = Num 9" "targetMinute ex_Number ex_settings = Num 0"
  by (simp_all add: targetHour_def targetMinute_def ex_settings_def elemAt_def ex_Number_def)

lemma ex_cycle_clock:
  "targetClock ex_cycle = ex_now" "jsNumber ex_cycle = ex_Number"
  "targetClock ex_cycle_no_daily = ex_now" "jsNumber ex_cycle_no_daily = ex_Number"
  "targetClock ex_cycle_settings_gone = ex_now" "jsNumber ex_cycle_settings_gone = ex_Number"
  by (simp_all add: ex_cycle_def ex_cycle_no_daily_def ex_cycle_settings_gone_def)

lemma ex_no_daily_inside_window:
  "\<not> outsideWindow ex_Number ex_now ex_now ex_settings_no_daily"
  by code_simp

lemma ex_io_ok:
  "freshSettings ex_io = Some ex_settings" "emailResult ex_io = None"
  "emailLogResult ex_io = None" "pushResult ex_io = None" "pushLogResult ex_io = None"
  by (simp_all add: ex_io_def)

lemma ex_settings_channels: "emailConfigured ex_settings" "pushConfigured ex_settings"
  by (simp_all add: emailConfigured_def pushConfigured_def truthy_def ex_settings_def)

lemma ex_no_daily_cycle:
  "fst (checkAndSendNotifications ex_cycle_no_daily ex_now False ex_world) = Inr () \<and>
   dispatchChannels (newEvents ex_world
     (snd (checkAndSendNotifications ex_cycle_no_daily ex_now False ex_world))) =
     [''EMAIL'', ''PUSH'', ''EMAIL'', ''PUSH'']"
proof -
  have en: "\<not> enableDailyNotifications ex_settings_no_daily"
    "enableWeeklyNotifications ex_settings_no_daily"
    "enableMonthlyNotifications ex_settings_no_daily"
    by (simp_all add: ex_settings_no_daily_def ex_settings_def)
  have io: "initialSettings ex_cycle_no_daily = Some ex_settings_no_daily"
    "weeklyIo ex_cycle_no_daily = ex_io" "monthlyIo ex_cycle_no_daily = ex_io"
    by (simp_all add: ex_cycle_no_daily_def ex_cycle_def)
  show ?thesis
    by (simp add: checkAndSendNotifications_def getNotificationSettings_def io
        ex_cycle_clock ex_no_daily_inside_window runCadences_def en
        processWeekly_send [OF en(2) ex_calendar(1) ex_weeklySelection]
        processMonthly_send [OF en(3) ex_calendar(2) ex_monthlySelection]
        sendNotification_all_ok [OF ex_io_ok] ex_settings_channels newEvents_def)
qed

lemma ex_silent:
  "freshSettings ex_io_silent = Some ex_settings_silent"
  "\<not> enableEmailNotifications ex_settings_silent"
  "\<not> truthy (endpoint ex_settings_silent)"
  "enablePushNotifications ex_settings_silent"
  "truthy (email ex_settings_silent)"
  by (simp_all add: ex_io_silent_def ex_settings_silent_def ex_settings_def truthy_def)

lemma ex_enabled:
  "enableDailyNotifications ex_settings" "enableWeeklyNotifications ex_settings"
  "enableMonthlyNotifications ex_settings"
  by (simp_all add: ex_settings_def)

lemma ex_io_email_down_facts:
  "freshSettings ex_io_email_down = Some ex_settings"
  "emailResult ex_io_email_down = Some ''smtp down''"
  "handlerLogResult ex_io_email_down = None"
  "handlerSettings ex_io_email_down = Some ex_settings"
  by (simp_all add: ex_io_email_down_def ex_io_def)

lemma ex_io_push_down_facts:
  "freshSettings ex_io_push_down = Some ex_settings"
  "emailResult ex_io_push_down = None" "emailLogResult ex_io_push_down = None"
  "pushResult ex_io_push_down = Some ''410 Gone''"
  "handlerLogResult ex_io_push_down = None"
  "handlerSettings ex_io_push_down = Some ex_settings"
  by (simp_all add: ex_io_push_down_def ex_io_def)

lemma ex_io_log_down_facts:
  "freshSettings ex_io_log_down = Some ex_settings"
  "emailResult ex_io_log_down = None"
  "emailLogResult ex_io_log_down = Some ''database is locked''"
  "handlerLogResult ex_io_log_down = None"
  "handlerSettings ex_io_log_down = Some ex_settings"
  by (simp_all add: ex_io_log_down_def ex_io_def)

lemma ex_io_push_log_down_facts:
  "freshSettings ex_io_push_log_down = Some ex_settings"
  "emailResult ex_io_push_log_down = None" "emailLogResult ex_io_push_log_down = None"
  "pushResult ex_io_push_log_down = None"
  "pushLogResult ex_io_push_log_down = Some ''database is locked''"
  "handlerLogResult ex_io_push_log_down = None"
  by (simp_all add: ex_io_push_log_down_def ex_io_def)

lemma ex_io_all_down_facts:
  "freshSettings ex_io_all_down = Some ex_settings"
  "emailResult ex_io_all_down = Some ''smtp down''"
  "handlerLogResult ex_io_all_down = Some ''database is locked''"
  by (simp_all add: ex_io_all_down_def ex_io_def)

lemma ex_io_log_all_down_facts:
  "freshSettings ex_io_log_all_down = Some ex_settings"
  "emailResult ex_io_log_all_down = None"
  "emailLogResult ex_io_log_all_down = Some ''database is locked''"
  "handlerLogResult ex_io_log_all_down = Some ''disk full''"
  by (simp_all add: ex_io_log_all_down_def ex_io_def)

lemma ex_world_facts:
  "medicines ex_world = [ex_ibuprofen, ex_aspirin]" "logs ex_world = []" "trace ex_world = []"
  "\<not> notified ex_aspirin" "\<not> notified ex_ibuprofen"
  "med_id ex_aspirin = 1" "med_id ex_ibuprofen = 2"
  by (simp_all add: ex_world_def ex_aspirin_def ex_ibuprofen_def)

lemma ex_dailySelection_ne: "dailySelection ex_now ex_world \<noteq> []"
  by (simp add: ex_dailySelection)


text \<open>The Daily path of the sample when the log table rejects the row after the mail went out.\<close>

lemma ex_daily_log_down:
  "fst (processDailyNotifications ex_io_log_down ex_now ex_settings ex_world) =
     Inl (LogError ''database is locked'') \<and>
   dispatchChannels (newEvents ex_world
     (snd (processDailyNotifications ex_io_log_down ex_now ex_settings ex_world))) = [''EMAIL''] \<and>
   map status (logs (snd (processDailyNotifications ex_io_log_down ex_now ex_settings ex_world))) =
     [''failed''] \<and>
   medicines (snd (processDailyNotifications ex_io_log_down ex_now ex_settings ex_world)) =
     [ex_ibuprofen, ex_aspirin]"
proof -
  let ?S = "sendNotification ex_io_log_down ex_now (hd (dailySelection ex_now ex_world)) ''DAILY''
    (dailyMessage ex_now (dailySelection ex_now ex_world)) ex_settings True
    (emit MedicineFindMany ex_world)"
  note S = sendNotification_email_log_throws
    [OF ex_io_log_down_facts(1) ex_settings_channels(1) ex_io_log_down_facts(2,3)]
  have "isl (fst ?S)"
    by (simp add: S ex_io_log_down_facts)
  then have "processDailyNotifications ex_io_log_down ex_now ex_settings ex_world = ?S"
    by (rule processDaily_send_fails [OF ex_enabled(1) ex_dailySelection_ne])
  then show ?thesis
    by (simp add: S ex_io_log_down_facts ex_world_facts newEvents_def)
qed

lemma ex_io_push_only_down_facts:
  "freshSettings ex_io_push_only_down = Some ex_settings_push_only"
  "\<not> emailConfigured ex_settings_push_only" "pushConfigured ex_settings_push_only"
  "pushResult ex_io_push_only_down = Some ''410 Gone''"
  "handlerLogResult ex_io_push_only_down = None"
  "handlerSettings ex_io_push_only_down = Some ex_settings_push_only"
  by (simp_all add: ex_io_push_only_down_def ex_io_def ex_settings_push_only_def
      ex_settings_def emailConfigured_def pushConfigured_def truthy_def)

lemma ex_io_settings_gone_facts:
  "freshSettings ex_io_settings_gone = None" "handlerSettings ex_io_settings_gone = None"
  "handlerLogResult ex_io_settings_gone = None"
  by (simp_all add: ex_io_settings_gone_def ex_io_def)

text \<open>
  A scheduled cycle of the sample in which the settings row is there at the first read
  and gone when \<open>sendNotification\<close> reads it again.
\<close>

lemma ex_cycle_settings_gone_result:
  "checkAndSendNotifications ex_cycle_settings_gone ex_now False ex_world =
     sendNotification ex_io_settings_gone ex_now ex_aspirin ''DAILY''
       (dailyMessage ex_now [ex_aspirin, ex_ibuprofen]) ex_settings True
       (emit MedicineFindMany (emit SettingsRead ex_world))"
proof -
  have io: "initialSettings ex_cycle_settings_gone = Some ex_settings"
    "dailyIo ex_cycle_settings_gone = ex_io_settings_gone"
    by (simp_all add: ex_cycle_settings_gone_def ex_cycle_def)
  have sel: "dailySelection ex_now (emit SettingsRead ex_world) = [ex_aspirin, ex_ibuprofen]"
    using ex_dailySelection by (simp add: dailySelection_eq)
  have f: "fst (sendNotification ex_io_settings_gone ex_now ex_aspirin ''DAILY''
       (dailyMessage ex_now [ex_aspirin, ex_ibuprofen]) ex_settings True
       (emit MedicineFindMany (emit SettingsRead ex_world))) = Inl nullPropertyError"
    by (simp add: sendNotification_null_settings ex_io_settings_gone_facts)
  obtain r w2 where s: "sendNotification ex_io_settings_gone ex_now ex_aspirin ''DAILY''
       (dailyMessage ex_now [ex_aspirin, ex_ibuprofen]) ex_settings True
       (emit MedicineFindMany (emit SettingsRead ex_world)) = (r, w2)"
    by (cases "sendNotification ex_io_settings_gone ex_now ex_aspirin ''DAILY''
       (dailyMessage ex_now [ex_aspirin, ex_ibuprofen]) ex_settings True
       (emit MedicineFindMany (emit SettingsRead ex_world))")
  with f have r: "r = Inl nullPropertyError"
    by simp
  show ?thesis
    by (simp add: checkAndSendNotifications_def getNotificationSettings_def io ex_cycle_clock
        ex_inside_window
        runCadences_def ex_enabled processDaily_send [OF ex_enabled(1) sel] s r)
qed

section \<open>The time gate\<close>

lemma clock_fields:
  "t = startOfDay t + hourOf t * MS_HOUR + minuteOf t * MS_MINUTE + t mod MS_MINUTE"
  "0 \<le> hourOf t" "hourOf t < 24" "0 \<le> minuteOf t" "minuteOf t < 60"
proof -
  have a: "(t mod MS_DAY) mod MS_HOUR = t mod MS_HOUR"
    by (simp add: MS_DAY_def MS_HOUR_def mod_mod_cancel)
  have b: "(t mod MS_HOUR) mod MS_MINUTE = t mod MS_MINUTE"
    by (simp add: MS_HOUR_def MS_MINUTE_def mod_mod_cancel)
  have "t mod MS_DAY = hourOf t * MS_HOUR + t mod MS_HOUR"
    unfolding hourOf_def using a by (metis div_mult_mod_eq)
  moreover have "t mod MS_HOUR = minuteOf t * MS_MINUTE + t mod MS_MINUTE"
    unfolding minuteOf_def using b by (metis div_mult_mod_eq)
  ultimately show "t = startOfDay t + hourOf t * MS_HOUR + minuteOf t * MS_MINUTE + t mod MS_MINUTE"
    by (simp add: startOfDay_def)
  have d: "0 \<le> t mod MS_DAY" "t mod MS_DAY < 86400000"
    by (simp_all add: MS_DAY_def)
  have e: "0 \<le> t mod MS_HOUR" "t mod MS_HOUR < 3600000"
    by (simp_all add: MS_HOUR_def)
  show "0 \<le> hourOf t"
    using d(1) by (simp add: hourOf_def MS_HOUR_def pos_imp_zdiv_nonneg_iff)
  show "0 \<le> minuteOf t"
    using e(1) by (simp add: minuteOf_def MS_MINUTE_def pos_imp_zdiv_nonneg_iff)
  have "t mod MS_DAY \<le> 86399999"
    using d(2) by simp
  then have "(t mod MS_DAY) div 3600000 \<le> 86399999 div (3600000::int)"
    by (rule zdiv_mono1) simp
  then show "hourOf t < 24"
    by (simp add: hourOf_def MS_HOUR_def)
  have "t mod MS_HOUR \<le> 3599999"
    using e(2) by simp
  then have "(t mod MS_HOUR) div 60000 \<le> 3599999 div (60000::int)"
    by (rule zdiv_mono1) simp
  then show "minuteOf t < 60"
    by (simp add: minuteOf_def MS_MINUTE_def)
qed


lemma truncDiv_minute_le_1: "(\<bar>truncDiv x MS_MINUTE\<bar> \<le> 1) = (\<bar>x\<bar> < 2 * MS_MINUTE)"
proof (cases "x < 0")
  case True
  have "((- x) div 60000 \<le> 1) = (- x < 120000)"
  proof
    assume "(- x) div 60000 \<le> 1"
    then have "(- x) div 60000 < 2" by simp
    then show "- x < 120000"
      by (simp add: div_less_iff_less_mult) 
  next
    assume "- x < 120000"
    then have "- x \<le> 119999" by simp
    then have "(- x) div 60000 \<le> 119999 div (60000::int)"
      by (rule zdiv_mono1) simp
    then show "(- x) div 60000 \<le> 1" by simp
  qed
  moreover have "0 \<le> (- x) div 60000"
    using True by (simp add: pos_imp_zdiv_nonneg_iff)
  ultimately show ?thesis
    using True by (simp add: truncDiv_def MS_MINUTE_def)
next
  case False
  have "(x div 60000 \<le> 1) = (x < 120000)"
  proof
    assume "x div 60000 \<le> 1"
    then have "x div 60000 < 2" by simp
    then show "x < 120000"
      by (simp add: div_less_iff_less_mult)
  next
    assume "x < 120000"
    then have "x \<le> 119999" by simp
    then have "x div 60000 \<le> 119999 div (60000::int)"
      by (rule zdiv_mono1) simp
    then show "x div 60000 \<le> 1" by simp
  qed
  moreover have "0 \<le> x div 60000"
    using False by (simp add: pos_imp_zdiv_nonneg_iff)
  ultimately show ?thesis
    using False by (simp add: truncDiv_def MS_MINUTE_def)
qed

lemma todayAt_fields:
  "t + (h - hourOf t) * MS_HOUR + (m - minuteOf t) * MS_MINUTE = todayAt t h m + t mod MS_MINUTE"
  using clock_fields(1) [of t] by (simp add: todayAt_def algebra_simps)

lemma minuteOf_shift_hours: "minuteOf (t + k * MS_HOUR) = minuteOf t"
  by (simp add: minuteOf_def)

lemma targetTimeToday_in_range:
  assumes "0 \<le> h" and "h < 24" and "0 \<le> m" and "m < 60"
    and "\<bar>now2\<bar> \<le> MAX_TIME - MS_DAY"
  shows "targetTimeToday now2 (Num h) (Num m) = Num (todayAt now2 h m + now2 mod MS_MINUTE)"
proof -
  have H: "0 \<le> hourOf now2" "hourOf now2 < 24" and M: "0 \<le> minuteOf now2" "minuteOf now2 < 60"
    by (rule clock_fields)+
  have s1: "\<bar>(h - hourOf now2) * MS_HOUR\<bar> \<le> 23 * MS_HOUR"
    using assms(1,2) H by (simp add: MS_HOUR_def abs_le_iff)
  have s2: "\<bar>(m - minuteOf now2) * MS_MINUTE\<bar> \<le> 59 * MS_MINUTE"
    using assms(3,4) M by (simp add: MS_MINUTE_def abs_le_iff)
  have r1: "\<bar>now2 + (h - hourOf now2) * MS_HOUR\<bar> \<le> MAX_TIME"
    using assms(5) s1 by (simp add: MS_DAY_def MS_HOUR_def MAX_TIME_def abs_le_iff)
  have r2: "\<bar>now2 + (h - hourOf now2) * MS_HOUR + (m - minuteOf now2) * MS_MINUTE\<bar> \<le> MAX_TIME"
    using assms(5) s1 s2
    by (simp add: MS_DAY_def MS_HOUR_def MS_MINUTE_def MAX_TIME_def abs_le_iff)
  have a: "setHour now2 h = Num (now2 + (h - hourOf now2) * MS_HOUR)"
    using r1 by (simp add: setHour_def timeClip_def)
  have b: "setMinute (now2 + (h - hourOf now2) * MS_HOUR) m =
      Num (now2 + (h - hourOf now2) * MS_HOUR + (m - minuteOf now2) * MS_MINUTE)"
    using r2 by (simp add: setMinute_def timeClip_def minuteOf_shift_hours)
  show ?thesis
    by (simp add: targetTimeToday_def a b todayAt_fields)
qed

lemma abs_minutes_lt_2: "(\<bar>k * MS_MINUTE\<bar> < 2 * MS_MINUTE) = (\<bar>k\<bar> \<le> 1)"
  by (simp add: MS_MINUTE_def abs_mult) arith

lemma window_arith:
  "0 \<le> r \<Longrightarrow> r < MS_MINUTE \<Longrightarrow>
   (- MS_MINUTE \<le> k * MS_MINUTE + r \<and> k * MS_MINUTE + r < 2 * MS_MINUTE) = (\<bar>k\<bar> \<le> 1)"
  by (simp add: MS_MINUTE_def) arith

lemma same_reading_window:
  "(\<bar>now - (todayAt now h m + now mod MS_MINUTE)\<bar> < 2 * MS_MINUTE) =
   (todayAt now h m - MS_MINUTE \<le> now \<and> now < todayAt now h m + 2 * MS_MINUTE)"
proof -
  let ?k = "(hourOf now - h) * 60 + (minuteOf now - m)"
  have x: "now - (todayAt now h m + now mod MS_MINUTE) = ?k * MS_MINUTE"
    using clock_fields(1) [of now]
    by (simp add: todayAt_def MS_HOUR_def MS_MINUTE_def algebra_simps)
  have r: "0 \<le> now mod MS_MINUTE" "now mod MS_MINUTE < MS_MINUTE"
    by (simp_all add: MS_MINUTE_def)
  have y: "now - todayAt now h m = ?k * MS_MINUTE + now mod MS_MINUTE"
    using x by simp
  have k: "(\<bar>?k * MS_MINUTE\<bar> < 2 * MS_MINUTE) = (\<bar>?k\<bar> \<le> 1)"
    by (rule abs_minutes_lt_2)
  have w: "(- MS_MINUTE \<le> ?k * MS_MINUTE + now mod MS_MINUTE \<and>
       ?k * MS_MINUTE + now mod MS_MINUTE < 2 * MS_MINUTE) = (\<bar>?k\<bar> \<le> 1)"
    using r by (rule window_arith)
  have "(todayAt now h m - MS_MINUTE \<le> now \<and> now < todayAt now h m + 2 * MS_MINUTE) =
      (- MS_MINUTE \<le> now - todayAt now h m \<and> now - todayAt now h m < 2 * MS_MINUTE)"
    by auto
  then show ?thesis
    by (simp only: x k y w)
qed

text \<open>
  C2, as amended. For a target time whose hour \<open>h\<close> (below 24) and minute \<open>m\<close> (below
  60) are what \<open>Number\<close> makes of the two pieces of the notification time, the cycle
  goes past the time gate exactly when \<open>forceCheck\<close> is set or the current instant is
  less than two minutes away from the target instant that the service computes. That
  instant is not today's \<open>h:m:00.000\<close>: it is today's \<open>h:m\<close> with the seconds and
  milliseconds of the clock at the moment the target is built (the second \<open>dayjs()\<close>),
  and the distance is counted in whole minutes, the fraction dropped. When the two
  clock readings are the same instant, the gate is open from one minute before today's
  \<open>h:m:00.000\<close> up to, but not including, two minutes after it. A cycle that passes the
  gate runs the cadences; one that does not returns having only read the settings. The
  clock is taken to be at least a day inside the range of a \<open>Date\<close>.
\<close>

theorem time_gate_window:
  assumes "targetHour (jsNumber io) settings = Num h"
    and "targetMinute (jsNumber io) settings = Num m"
    and "0 \<le> h" and "h < 24" and "0 \<le> m" and "m < 60"
    and "\<bar>targetClock io\<bar> \<le> MAX_TIME - MS_DAY"
  shows "(passesGate (jsNumber io) forceCheck now (targetClock io) settings \<longleftrightarrow>
            forceCheck \<or>
            \<bar>now - (todayAt (targetClock io) h m + targetClock io mod MS_MINUTE)\<bar>
              < 2 * MS_MINUTE) \<and>
         (targetClock io = now \<longrightarrow>
            (passesGate (jsNumber io) forceCheck now (targetClock io) settings \<longleftrightarrow>
               forceCheck \<or>
               (todayAt now h m - MS_MINUTE \<le> now \<and> now < todayAt now h m + 2 * MS_MINUTE))) \<and>
         (initialSettings io = Some settings \<longrightarrow>
            checkAndSendNotifications io now forceCheck w =
              (if passesGate (jsNumber io) forceCheck now (targetClock io) settings
               then runCadences io now settings (emit SettingsRead w)
               else (Inr (), emit SettingsRead w)))"
proof -
  let ?T = "todayAt (targetClock io) h m + targetClock io mod MS_MINUTE"
  have d: "diffInMinutes (jsNumber io) now (targetClock io) settings =
      Num \<bar>truncDiv (now - ?T) MS_MINUTE\<bar>"
    by (simp add: diffInMinutes_def assms(1,2) targetTimeToday_in_range [OF assms(3-7)]
        diffMinute_def)
  have a: "passesGate (jsNumber io) forceCheck now (targetClock io) settings \<longleftrightarrow>
      forceCheck \<or> \<bar>now - ?T\<bar> < 2 * MS_MINUTE"
    using truncDiv_minute_le_1 [of "now - ?T"]
    by (auto simp: passesGate_def outsideWindow_def d)
  have b: "targetClock io = now \<longrightarrow>
      (passesGate (jsNumber io) forceCheck now (targetClock io) settings \<longleftrightarrow>
         forceCheck \<or>
         (todayAt now h m - MS_MINUTE \<le> now \<and> now < todayAt now h m + 2 * MS_MINUTE))"
    using a same_reading_window [of now h m] by auto
  have c: "initialSettings io = Some settings \<longrightarrow>
      checkAndSendNotifications io now forceCheck w =
        (if passesGate (jsNumber io) forceCheck now (targetClock io) settings
         then runCadences io now settings (emit SettingsRead w)
         else (Inr (), emit SettingsRead w))"
    by (simp add: checkAndSendNotifications_def getNotificationSettings_def passesGate_def)
  from a b c show ?thesis
    by blast
qed

theorem time_gate_window_witness:
  "targetHour (jsNumber ex_cycle) ex_settings = Num 9 \<and>
   targetMinute (jsNumber ex_cycle) ex_settings = Num 0 \<and>
   \<bar>1704099719999\<bar> \<le> MAX_TIME - MS_DAY \<and>
   todayAt 1704099719999 9 0 = 1704099600000 \<and>
   passesGate ex_Number False 1704099719999 1704099719999 ex_settings \<and>
   \<not> passesGate ex_Number False 1704099539999 1704099539999 ex_settings \<and>
   \<not> passesGate ex_Number False 1704099720000 1704099720000 ex_settings \<and>
   passesGate ex_Number False 1704099720000 1704099720001 ex_settings \<and>
   initialSettings ex_cycle = Some ex_settings \<and>
   checkAndSendNotifications (ex_cycle\<lparr>targetClock := 1704099719999\<rparr>) 1704099719999 False
     ex_world =
     runCadences (ex_cycle\<lparr>targetClock := 1704099719999\<rparr>) 1704099719999 ex_settings
       (emit SettingsRead ex_world) \<and>
   checkAndSendNotifications (ex_cycle\<lparr>targetClock := 1704099539999\<rparr>) 1704099539999 False
     ex_world = (Inr (), emit SettingsRead ex_world)"
proof -
  let ?io = "\<lambda>t. ex_cycle\<lparr>targetClock := t\<rparr>"
  have n: "jsNumber (?io t) = ex_Number" "targetClock (?io t) = t"
    "initialSettings (?io t) = Some ex_settings" for t
    by (simp_all add: ex_cycle_def)
  have h: "targetHour (jsNumber (?io t)) ex_settings = Num 9"
    and m: "targetMinute (jsNumber (?io t)) ex_settings = Num 0" for t
    by (simp_all add: n ex_target)
  have r: "(0::int) \<le> 9" "(9::int) < 24" "(0::int) \<le> 0" "(0::int) < 60"
    by simp_all
  have c: "\<bar>targetClock (?io 1704099719999)\<bar> \<le> MAX_TIME - MS_DAY"
    "\<bar>targetClock (?io 1704099539999)\<bar> \<le> MAX_TIME - MS_DAY"
    "\<bar>targetClock (?io 1704099720000)\<bar> \<le> MAX_TIME - MS_DAY"
    "\<bar>targetClock (?io 1704099720001)\<bar> \<le> MAX_TIME - MS_DAY"
    by (simp_all add: n MAX_TIME_def MS_DAY_def)
  have t: "todayAt 1704099719999 9 0 = 1704099600000" "todayAt 1704099539999 9 0 = 1704099600000"
    "todayAt 1704099720000 9 0 = 1704099600000" "todayAt 1704099720001 9 0 = 1704099600000"
    by (simp_all add: todayAt_def startOfDay_def MS_DAY_def MS_HOUR_def MS_MINUTE_def)
  note late = time_gate_window [OF h m r c(1), of False 1704099719999 ex_world]
  note early = time_gate_window [OF h m r c(2), of False 1704099539999 ex_world]
  note shut = time_gate_window [OF h m r c(3), of False 1704099720000 ex_world]
  note drift = time_gate_window [OF h m r c(4), of False 1704099720000 ex_world]
  from late have p1: "passesGate ex_Number False 1704099719999 1704099719999 ex_settings"
    by (simp add: n t MS_MINUTE_def)
  from early have p2: "\<not> passesGate ex_Number False 1704099539999 1704099539999 ex_settings"
    by (simp add: n t MS_MINUTE_def)
  from shut have p3: "\<not> passesGate ex_Number False 1704099720000 1704099720000 ex_settings"
    by (simp add: n t MS_MINUTE_def)
  from drift have p4: "passesGate ex_Number False 1704099720000 1704099720001 ex_settings"
    by (simp add: n t MS_MINUTE_def)
  from late p1 have c1: "checkAndSendNotifications (?io 1704099719999) 1704099719999 False
      ex_world = runCadences (?io 1704099719999) 1704099719999 ex_settings
        (emit SettingsRead ex_world)"
    by (simp add: n)
  from early p2 have c2: "checkAndSendNotifications (?io 1704099539999) 1704099539999 False
      ex_world = (Inr (), emit SettingsRead ex_world)"
    by (simp add: n)
  have i: "initialSettings ex_cycle = Some ex_settings" "jsNumber ex_cycle = ex_Number"
    by (simp_all add: ex_cycle_def)
  from c(1) have b: "\<bar>1704099719999\<bar> \<le> MAX_TIME - MS_DAY"
    by (simp add: n)
  from p1 p2 p3 p4 c1 c2 t(1) i b ex_target show ?thesis
    by simp
qed

text \<open>
  The claim as first stated fails on the sample, target 09:00 and one clock reading for
  both calls. At 09:01:59.999 the gate is passed, 119999 milliseconds after today's
  09:00:00.000, which is more than one minute. At 08:58:00.001 the gate is shut, though
  the distance to 09:00:00.000 counted in whole minutes, as \<open>diff\<close> counts, is one.
\<close>

theorem time_gate_counterexample:
  "targetHour ex_Number ex_settings = Num 9 \<and> targetMinute ex_Number ex_settings = Num 0 \<and>
   todayAt 1704099719999 9 0 = 1704099600000 \<and>
   passesGate ex_Number False 1704099719999 1704099719999 ex_settings \<and>
   \<not> \<bar>1704099719999 - todayAt 1704099719999 9 0\<bar> \<le> MS_MINUTE \<and>
   todayAt 1704099480001 9 0 = 1704099600000 \<and>
   \<not> passesGate ex_Number False 1704099480001 1704099480001 ex_settings \<and>
   \<bar>diffMinute 1704099480001 (todayAt 1704099480001 9 0)\<bar> \<le> 1"
  by code_simp

section \<open>The Daily path\<close>

text \<open>
  C1. With daily notifications enabled, the Daily path selects exactly the medicines
  whose expiry lies between now and the end of the current week and whose \<open>notified\<close>
  flag is false, in ascending order of expiry. It returns normally exactly when the
  consolidated send does, and then every selected medicine (every row with a selected
  id) has \<open>notified = true\<close> and \<open>lastNotificationDate\<close> stamped with the clock; the
  other rows are as they were.
\<close>

theorem daily_selection_and_marking:
  assumes "enableDailyNotifications settings"
  shows "mset (dailySelection now w) =
           filter_mset (\<lambda>m. now \<le> expiryDate m \<and> expiryDate m \<le> endOfWeek now \<and> \<not> notified m)
             (mset (medicines w)) \<and>
         sorted (map expiryDate (dailySelection now w)) \<and>
         (dailySelection now w \<noteq> [] \<longrightarrow>
            fst (processDailyNotifications io now settings w) =
            fst (sendNotification io now (hd (dailySelection now w)) ''DAILY''
                   (dailyMessage now (dailySelection now w)) settings True
                   (emit MedicineFindMany w))) \<and>
         (fst (processDailyNotifications io now settings w) = Inr () \<longrightarrow>
            medicines (snd (processDailyNotifications io now settings w)) =
              map (\<lambda>m. if med_id m \<in> med_id ` set (dailySelection now w)
                        then m\<lparr>notified := True, lastNotificationDate := Some now\<rparr> else m)
                (medicines w) \<and>
            (\<forall>m \<in> set (medicines (snd (processDailyNotifications io now settings w))).
               med_id m \<in> med_id ` set (dailySelection now w) \<longrightarrow>
               notified m \<and> lastNotificationDate m = Some now))"
proof -
  have a: "mset (dailySelection now w) =
           filter_mset (\<lambda>m. now \<le> expiryDate m \<and> expiryDate m \<le> endOfWeek now \<and> \<not> notified m)
             (mset (medicines w))"
    by (simp add: dailySelection_eq)
  have b: "sorted (map expiryDate (dailySelection now w))"
    by (simp add: dailySelection_eq)
  have c: "dailySelection now w \<noteq> [] \<longrightarrow>
            fst (processDailyNotifications io now settings w) =
            fst (sendNotification io now (hd (dailySelection now w)) ''DAILY''
                   (dailyMessage now (dailySelection now w)) settings True
                   (emit MedicineFindMany w))"
    using processDaily_result [OF assms] by blast
  have d: "fst (processDailyNotifications io now settings w) = Inr () \<longrightarrow>
            medicines (snd (processDailyNotifications io now settings w)) =
              map (\<lambda>m. if med_id m \<in> med_id ` set (dailySelection now w)
                        then m\<lparr>notified := True, lastNotificationDate := Some now\<rparr> else m)
                (medicines w)"
    using processDaily_medicines [OF assms, of io now w] by simp
  have e: "fst (processDailyNotifications io now settings w) = Inr () \<longrightarrow>
            (\<forall>m \<in> set (medicines (snd (processDailyNotifications io now settings w))).
               med_id m \<in> med_id ` set (dailySelection now w) \<longrightarrow>
               notified m \<and> lastNotificationDate m = Some now)"
  proof
    assume ok: "fst (processDailyNotifications io now settings w) = Inr ()"
    show "\<forall>m \<in> set (medicines (snd (processDailyNotifications io now settings w))).
               med_id m \<in> med_id ` set (dailySelection now w) \<longrightarrow>
               notified m \<and> lastNotificationDate m = Some now"
      using d ok by auto
  qed
  from a b c d e show ?thesis by blast
qed

theorem daily_selection_and_marking_witness:
  "enableDailyNotifications ex_settings \<and>
   dailySelection ex_now ex_world = [ex_aspirin, ex_ibuprofen] \<and>
   map expiryDate (dailySelection ex_now ex_world) = [1704272430000, 1704531630000] \<and>
   fst (processDailyNotifications ex_io ex_now ex_settings ex_world) = Inr () \<and>
   medicines (snd (processDailyNotifications ex_io ex_now ex_settings ex_world)) =
     [ex_ibuprofen\<lparr>notified := True, lastNotificationDate := Some ex_now\<rparr>,
      ex_aspirin\<lparr>notified := True, lastNotificationDate := Some ex_now\<rparr>]"
proof -
  have ok: "fst (processDailyNotifications ex_io ex_now ex_settings ex_world) = Inr ()"
    by (simp add: processDaily_send [OF ex_enabled(1) ex_dailySelection]
        sendNotification_all_ok [OF ex_io_ok])
  have ms: "medicines ex_world = [ex_ibuprofen, ex_aspirin]"
    by (simp add: ex_world_def)
  have ids: "med_id ex_aspirin = 1" "med_id ex_ibuprofen = 2"
    by (simp_all add: ex_aspirin_def ex_ibuprofen_def)
  from daily_selection_and_marking [OF ex_enabled(1), of ex_now ex_world ex_io] ok
  have "medicines (snd (processDailyNotifications ex_io ex_now ex_settings ex_world)) =
      map (\<lambda>m. if med_id m \<in> med_id ` set (dailySelection ex_now ex_world)
                then m\<lparr>notified := True, lastNotificationDate := Some ex_now\<rparr> else m)
        (medicines ex_world)"
    by blast
  then have upd: "medicines (snd (processDailyNotifications ex_io ex_now ex_settings ex_world)) =
     [ex_ibuprofen\<lparr>notified := True, lastNotificationDate := Some ex_now\<rparr>,
      ex_aspirin\<lparr>notified := True, lastNotificationDate := Some ex_now\<rparr>]"
    by (simp add: ex_dailySelection ms ids)
  have ex: "map expiryDate [ex_aspirin, ex_ibuprofen] = [1704272430000, 1704531630000]"
    by (simp add: ex_aspirin_def ex_ibuprofen_def)
  from ex_enabled(1) ex_dailySelection ok upd ex show ?thesis
    by simp
qed

text \<open>
  C10. When the Daily selection is not empty and the settings read again by
  \<open>sendNotification\<close> have email disabled or no address, and push disabled or no
  endpoint, no channel is called and no log row is written, the Daily path still
  returns normally and marks every selected medicine \<open>notified = true\<close> with the stamp;
  whatever the later time, a Daily selection on the resulting table contains none of
  them.
\<close>

theorem daily_without_channels_still_marks:
  assumes "enableDailyNotifications st" and "dailySelection now w \<noteq> []"
    and "freshSettings io = Some cs"
    and "\<not> enableEmailNotifications cs \<or> \<not> truthy (email cs)"
    and "\<not> enablePushNotifications cs \<or> \<not> truthy (endpoint cs)"
  shows "fst (processDailyNotifications io now st w) = Inr () \<and>
    dispatchChannels (newEvents w (snd (processDailyNotifications io now st w))) = [] \<and>
    logs (snd (processDailyNotifications io now st w)) = logs w \<and>
    (\<forall>m \<in> set (dailySelection now w).
       m\<lparr>notified := True, lastNotificationDate := Some now\<rparr>
         \<in> set (medicines (snd (processDailyNotifications io now st w)))) \<and>
    (\<forall>m \<in> set (medicines (snd (processDailyNotifications io now st w))).
       med_id m \<in> med_id ` set (dailySelection now w) \<longrightarrow>
       notified m \<and> lastNotificationDate m = Some now) \<and>
    (\<forall>later. \<forall>m \<in> set (dailySelection later (snd (processDailyNotifications io now st w))).
       med_id m \<notin> med_id ` set (dailySelection now w))"
proof -
  let ?R = "processDailyNotifications io now st w"
  let ?mark = "\<lambda>m. if med_id m \<in> med_id ` set (dailySelection now w)
                     then m\<lparr>notified := True, lastNotificationDate := Some now\<rparr> else m"
  obtain first others where sel: "dailySelection now w = first # others"
    using assms(2) by (cases "dailySelection now w") auto
  have nc: "\<not> emailConfigured cs" "\<not> pushConfigured cs"
    using assms(4,5) by (auto simp: emailConfigured_def pushConfigured_def)
  have R: "?R = (Inr (), updateMany (map med_id (first # others)) now
                   (emit SettingsRead (emit MedicineFindMany w)))"
    by (simp add: processDaily_send [OF assms(1) sel]
        sendNotification_no_channel [OF assms(3) nc])
  have ok: "fst ?R = Inr ()"
    by (simp add: R)
  have tr: "trace (snd ?R) =
      trace w @ [MedicineFindMany, SettingsRead, MedicineUpdateMany (map med_id (first # others))]"
    by (simp add: R)
  have ch: "dispatchChannels (newEvents w (snd ?R)) = []"
    by (simp add: newEvents_append [OF tr])
  have lg: "logs (snd ?R) = logs w"
    by (simp add: R)
  have ms: "medicines (snd ?R) = map ?mark (medicines w)"
    using processDaily_medicines [OF assms(1), of io now w] ok by simp
  have a: "\<forall>m \<in> set (dailySelection now w).
       m\<lparr>notified := True, lastNotificationDate := Some now\<rparr> \<in> set (medicines (snd ?R))"
  proof
    fix m assume m: "m \<in> set (dailySelection now w)"
    then have "m \<in> set (medicines w)"
      by (simp add: dailySelection_subset)
    then have "?mark m \<in> set (map ?mark (medicines w))"
      unfolding set_map by (rule imageI)
    with m show "m\<lparr>notified := True, lastNotificationDate := Some now\<rparr> \<in> set (medicines (snd ?R))"
      by (simp add: ms)
  qed
  have b: "\<forall>m \<in> set (medicines (snd ?R)).
       med_id m \<in> med_id ` set (dailySelection now w) \<longrightarrow>
       notified m \<and> lastNotificationDate m = Some now"
    by (auto simp: ms)
  have c: "\<forall>later. \<forall>m \<in> set (dailySelection later (snd ?R)).
       med_id m \<notin> med_id ` set (dailySelection now w)"
  proof (intro allI ballI)
    fix later m assume "m \<in> set (dailySelection later (snd ?R))"
    then have "m \<in> set (medicines (snd ?R))" and "\<not> notified m"
      by (simp_all add: dailySelection_subset)
    with b show "med_id m \<notin> med_id ` set (dailySelection now w)"
      by blast
  qed
  from ok ch lg a b c show ?thesis
    by blast
qed

theorem daily_without_channels_still_marks_witness:
  "enableDailyNotifications ex_settings \<and>
   dailySelection ex_now ex_world = [ex_aspirin, ex_ibuprofen] \<and>
   freshSettings ex_io_silent = Some ex_settings_silent \<and>
   \<not> enableEmailNotifications ex_settings_silent \<and>
   \<not> truthy (endpoint ex_settings_silent) \<and>
   fst (processDailyNotifications ex_io_silent ex_now ex_settings ex_world) = Inr () \<and>
   dispatchChannels (newEvents ex_world
     (snd (processDailyNotifications ex_io_silent ex_now ex_settings ex_world))) = [] \<and>
   logs (snd (processDailyNotifications ex_io_silent ex_now ex_settings ex_world)) = [] \<and>
   ex_aspirin\<lparr>notified := True, lastNotificationDate := Some ex_now\<rparr>
     \<in> set (medicines (snd (processDailyNotifications ex_io_silent ex_now ex_settings ex_world))) \<and>
   ex_ibuprofen\<lparr>notified := True, lastNotificationDate := Some ex_now\<rparr>
     \<in> set (medicines (snd (processDailyNotifications ex_io_silent ex_now ex_settings ex_world)))"
proof -
  have ne: "dailySelection ex_now ex_world \<noteq> []"
    by (simp add: ex_dailySelection)
  have l: "logs ex_world = []"
    by (simp add: ex_world_def)
  note t = daily_without_channels_still_marks
    [OF ex_enabled(1) ne ex_silent(1) disjI1 [OF ex_silent(2)] disjI2 [OF ex_silent(3)]]
  from t show ?thesis
    by (simp add: ex_dailySelection ex_enabled ex_silent l)
qed

section \<open>The Weekly and Monthly paths\<close>

text \<open>
  C5. On a day that is not a Monday the Weekly path returns at once, and on a day that
  is not the first of the month so does the Monthly path: the world is as before, so
  no query was made, nothing dispatched and nothing logged. For each of the three
  cadences an empty selection ends the call normally with no dispatch call and no
  new log row.
\<close>

theorem cadence_gating_and_empty_selection:
  "(dayOfWeek now \<noteq> 1 \<longrightarrow> processWeeklyNotifications io now st w = (Inr (), w)) \<and>
   (dateOf now \<noteq> 1 \<longrightarrow> processMonthlyNotifications io now st w = (Inr (), w)) \<and>
   (weeklySelection now w = [] \<longrightarrow>
      fst (processWeeklyNotifications io now st w) = Inr () \<and>
      dispatchChannels (newEvents w (snd (processWeeklyNotifications io now st w))) = [] \<and>
      logs (snd (processWeeklyNotifications io now st w)) = logs w) \<and>
   (monthlySelection now w = [] \<longrightarrow>
      fst (processMonthlyNotifications io now st w) = Inr () \<and>
      dispatchChannels (newEvents w (snd (processMonthlyNotifications io now st w))) = [] \<and>
      logs (snd (processMonthlyNotifications io now st w)) = logs w) \<and>
   (dailySelection now w = [] \<longrightarrow>
      fst (processDailyNotifications io now st w) = Inr () \<and>
      dispatchChannels (newEvents w (snd (processDailyNotifications io now st w))) = [] \<and>
      logs (snd (processDailyNotifications io now st w)) = logs w)"
proof -
  have wk: "dayOfWeek now \<noteq> 1 \<longrightarrow> processWeeklyNotifications io now st w = (Inr (), w)"
    by (simp add: processWeekly_skip)
  have mo: "dateOf now \<noteq> 1 \<longrightarrow> processMonthlyNotifications io now st w = (Inr (), w)"
    by (simp add: processMonthly_skip)
  have we: "weeklySelection now w = [] \<longrightarrow>
      fst (processWeeklyNotifications io now st w) = Inr () \<and>
      dispatchChannels (newEvents w (snd (processWeeklyNotifications io now st w))) = [] \<and>
      logs (snd (processWeeklyNotifications io now st w)) = logs w"
    by (cases "\<not> enableWeeklyNotifications st \<or> dayOfWeek now \<noteq> 1")
      (auto simp: processWeekly_skip processWeekly_empty)
  have me: "monthlySelection now w = [] \<longrightarrow>
      fst (processMonthlyNotifications io now st w) = Inr () \<and>
      dispatchChannels (newEvents w (snd (processMonthlyNotifications io now st w))) = [] \<and>
      logs (snd (processMonthlyNotifications io now st w)) = logs w"
    by (cases "\<not> enableMonthlyNotifications st \<or> dateOf now \<noteq> 1")
      (auto simp: processMonthly_skip processMonthly_empty)
  have de: "dailySelection now w = [] \<longrightarrow>
      fst (processDailyNotifications io now st w) = Inr () \<and>
      dispatchChannels (newEvents w (snd (processDailyNotifications io now st w))) = [] \<and>
      logs (snd (processDailyNotifications io now st w)) = logs w"
    by (cases "enableDailyNotifications st")
      (auto simp: processDaily_disabled processDaily_empty)
  from wk mo we me de show ?thesis
    by blast
qed

theorem cadence_gating_and_empty_selection_witness:
  "dayOfWeek ex_tuesday \<noteq> 1 \<and> dateOf ex_tuesday \<noteq> 1 \<and>
   enableWeeklyNotifications ex_settings \<and> enableMonthlyNotifications ex_settings \<and>
   processWeeklyNotifications ex_io ex_tuesday ex_settings ex_world = (Inr (), ex_world) \<and>
   processMonthlyNotifications ex_io ex_tuesday ex_settings ex_world = (Inr (), ex_world) \<and>
   dayOfWeek ex_now = 1 \<and> dateOf ex_now = 1 \<and>
   weeklySelection ex_now ex_empty_world = [] \<and>
   monthlySelection ex_now ex_empty_world = [] \<and>
   dailySelection ex_now ex_empty_world = [] \<and>
   dispatchChannels (newEvents ex_empty_world
     (snd (processWeeklyNotifications ex_io ex_now ex_settings ex_empty_world))) = [] \<and>
   logs (snd (processWeeklyNotifications ex_io ex_now ex_settings ex_empty_world)) = [] \<and>
   dispatchChannels (newEvents ex_empty_world
     (snd (processMonthlyNotifications ex_io ex_now ex_settings ex_empty_world))) = [] \<and>
   logs (snd (processMonthlyNotifications ex_io ex_now ex_settings ex_empty_world)) = [] \<and>
   dispatchChannels (newEvents ex_empty_world
     (snd (processDailyNotifications ex_io ex_now ex_settings ex_empty_world))) = [] \<and>
   logs (snd (processDailyNotifications ex_io ex_now ex_settings ex_empty_world)) = []"
proof -
  have t: "dayOfWeek ex_tuesday \<noteq> 1" "dateOf ex_tuesday \<noteq> 1"
    by (simp_all add: ex_calendar)
  have en: "enableWeeklyNotifications ex_settings" "enableMonthlyNotifications ex_settings"
    by (simp_all add: ex_settings_def)
  have sel: "weeklySelection ex_now ex_empty_world = []"
    "monthlySelection ex_now ex_empty_world = []" "dailySelection ex_now ex_empty_world = []"
    by (simp_all add: weeklySelection_eq monthlySelection_eq dailySelection_eq ex_empty_world_def)
  have l: "logs ex_empty_world = []"
    by (simp add: ex_empty_world_def)
  note g = cadence_gating_and_empty_selection [of ex_tuesday ex_io ex_settings ex_world]
  note e = cadence_gating_and_empty_selection [of ex_now ex_io ex_settings ex_empty_world]
  from g t have a: "processWeeklyNotifications ex_io ex_tuesday ex_settings ex_world = (Inr (), ex_world)"
    "processMonthlyNotifications ex_io ex_tuesday ex_settings ex_world = (Inr (), ex_world)"
    by blast+
  from e sel l have b:
    "dispatchChannels (newEvents ex_empty_world
       (snd (processWeeklyNotifications ex_io ex_now ex_settings ex_empty_world))) = []"
    "logs (snd (processWeeklyNotifications ex_io ex_now ex_settings ex_empty_world)) = []"
    "dispatchChannels (newEvents ex_empty_world
       (snd (processMonthlyNotifications ex_io ex_now ex_settings ex_empty_world))) = []"
    "logs (snd (processMonthlyNotifications ex_io ex_now ex_settings ex_empty_world)) = []"
    "dispatchChannels (newEvents ex_empty_world
       (snd (processDailyNotifications ex_io ex_now ex_settings ex_empty_world))) = []"
    "logs (snd (processDailyNotifications ex_io ex_now ex_settings ex_empty_world)) = []"
    by simp_all
  from t en a b sel ex_calendar(1,2) show ?thesis
    by simp
qed

text \<open>
  C7. The Weekly and the Monthly path leave the medicine table exactly as it was. The
  Daily path, and with it a whole check cycle, changes at most the columns \<open>notified\<close>
  and \<open>lastNotificationDate\<close>: all other columns of every row, and the rows
  themselves, stay. A cycle that does not run the Daily path (no settings row, or
  daily notifications disabled) leaves the table exactly as it was.
\<close>

theorem weekly_monthly_never_mutate:
  "medicines (snd (processWeeklyNotifications io now st w)) = medicines w \<and>
   medicines (snd (processMonthlyNotifications io now st w)) = medicines w \<and>
   map otherFields (medicines (snd (processDailyNotifications io now st w))) =
     map otherFields (medicines w) \<and>
   map otherFields (medicines (snd (checkAndSendNotifications cio now forceCheck w))) =
     map otherFields (medicines w) \<and>
   ((case initialSettings cio of None \<Rightarrow> True | Some s \<Rightarrow> \<not> enableDailyNotifications s) \<longrightarrow>
      medicines (snd (checkAndSendNotifications cio now forceCheck w)) = medicines w)"
  using processWeekly_medicines processMonthly_medicines processDaily_otherFields
    checkAndSend_otherFields checkAndSend_no_daily
  by blast

theorem weekly_monthly_never_mutate_witness:
  "(case initialSettings ex_cycle_no_daily of
      None \<Rightarrow> True | Some s \<Rightarrow> \<not> enableDailyNotifications s) \<and>
   dispatchChannels (newEvents ex_world
     (snd (checkAndSendNotifications ex_cycle_no_daily ex_now False ex_world))) =
     [''EMAIL'', ''PUSH'', ''EMAIL'', ''PUSH''] \<and>
   medicines (snd (checkAndSendNotifications ex_cycle_no_daily ex_now False ex_world)) =
     [ex_ibuprofen, ex_aspirin]"
proof -
  have h: "case initialSettings ex_cycle_no_daily of
      None \<Rightarrow> True | Some s \<Rightarrow> \<not> enableDailyNotifications s"
    by (simp add: ex_cycle_no_daily_def ex_cycle_def ex_settings_no_daily_def)
  have m: "medicines ex_world = [ex_ibuprofen, ex_aspirin]"
    by (simp add: ex_world_def)
  from weekly_monthly_never_mutate [of ex_io ex_now ex_settings ex_world ex_cycle_no_daily False] h
  have "medicines (snd (checkAndSendNotifications ex_cycle_no_daily ex_now False ex_world)) =
      medicines ex_world"
    by blast
  with h m ex_no_daily_cycle show ?thesis
    by simp
qed

section \<open>Failures inside sendNotification\<close>

text \<open>
  C3, as amended. In one call of \<open>sendNotification\<close> the mail is sent before the push
  message, each at most once. When a channel send throws, the call ends with an error,
  no further channel is called and no medicine is updated (also in single-medicine
  mode), and the handler's last act is the insert of a log row with status \<open>failed\<close>
  carrying the error's message. When the log table accepts that row, the row is in the
  log and the error the caller receives is the channel's own; when the insert throws,
  no failed row is written and the caller receives the insert's error instead. In
  particular, when the mail send throws during the Daily path, the Daily path ends with
  an error and every selected medicine is still in the table with \<open>notified = false\<close>.
\<close>

theorem channel_failure_handling:
  assumes "sendNotification io now med ty msg st c w = (r, w')"
    and "processDailyNotifications io now st w = (rd, wd)"
  shows "dispatchChannels (newEvents w w') \<in> {[], [''EMAIL''], [''PUSH''], [''EMAIL'', ''PUSH'']} \<and>
   (freshSettings io = Some cs \<and> emailConfigured cs \<and> emailResult io = Some e \<longrightarrow>
      isl r \<and> dispatchChannels (newEvents w w') = [''EMAIL''] \<and>
      last (newEvents w w') =
        LogCreate \<lparr>medicineId = med_id med, logType = ty, channel = ''EMAIL'',
          status = ''failed'', message = e,
          logEmail = (case handlerSettings io of None \<Rightarrow> None | Some s \<Rightarrow> email s)\<rparr> \<and>
      medicines w' = medicines w \<and>
      (handlerLogResult io = None \<longrightarrow>
         r = Inl (EmailError e) \<and>
         logs w' = logs w @
           [\<lparr>medicineId = med_id med, logType = ty, channel = ''EMAIL'',
             status = ''failed'', message = e,
             logEmail = (case handlerSettings io of None \<Rightarrow> None | Some s \<Rightarrow> email s)\<rparr>]) \<and>
      (handlerLogResult io = Some e2 \<longrightarrow> r = Inl (LogError e2) \<and> logs w' = logs w)) \<and>
   (freshSettings io = Some cs \<and>
    (\<not> emailConfigured cs \<or> emailResult io = None \<and> emailLogResult io = None) \<and>
    pushConfigured cs \<and> pushResult io = Some e \<longrightarrow>
      isl r \<and>
      dispatchChannels (newEvents w w') =
        (if emailConfigured cs then [''EMAIL'', ''PUSH''] else [''PUSH'']) \<and>
      (case last (newEvents w w') of
         LogCreate row \<Rightarrow>
           medicineId row = med_id med \<and> logType row = ty \<and>
           status row = ''failed'' \<and> message row = e
       | _ \<Rightarrow> False) \<and>
      medicines w' = medicines w \<and>
      (handlerLogResult io = None \<longrightarrow>
         r = Inl (PushError e) \<and>
         map status (drop (length (logs w)) (logs w')) =
           (if emailConfigured cs then [''success'', ''failed''] else [''failed'']) \<and>
         message (last (logs w')) = e) \<and>
      (handlerLogResult io = Some e2 \<longrightarrow>
         r = Inl (LogError e2) \<and>
         map status (drop (length (logs w)) (logs w')) =
           (if emailConfigured cs then [''success''] else []))) \<and>
   (enableDailyNotifications st \<and> dailySelection now w \<noteq> [] \<and>
    freshSettings io = Some cs \<and> emailConfigured cs \<and> emailResult io = Some e \<longrightarrow>
      isl rd \<and> medicines wd = medicines w \<and>
      (\<forall>m \<in> set (dailySelection now w). m \<in> set (medicines wd) \<and> \<not> notified m))"
proof -
  have order: "dispatchChannels (newEvents w w')
      \<in> {[], [''EMAIL''], [''PUSH''], [''EMAIL'', ''PUSH'']}"
    using sendNotification_channels [of w io now med ty msg st c] assms(1) by simp
  have mail: "isl r \<and> dispatchChannels (newEvents w w') = [''EMAIL''] \<and>
      last (newEvents w w') =
        LogCreate \<lparr>medicineId = med_id med, logType = ty, channel = ''EMAIL'',
          status = ''failed'', message = e,
          logEmail = (case handlerSettings io of None \<Rightarrow> None | Some s \<Rightarrow> email s)\<rparr> \<and>
      medicines w' = medicines w \<and>
      (handlerLogResult io = None \<longrightarrow>
         r = Inl (EmailError e) \<and>
         logs w' = logs w @
           [\<lparr>medicineId = med_id med, logType = ty, channel = ''EMAIL'',
             status = ''failed'', message = e,
             logEmail = (case handlerSettings io of None \<Rightarrow> None | Some s \<Rightarrow> email s)\<rparr>]) \<and>
      (handlerLogResult io = Some e2 \<longrightarrow> r = Inl (LogError e2) \<and> logs w' = logs w)"
    if h: "freshSettings io = Some cs" "emailConfigured cs" "emailResult io = Some e"
    using sendNotification_email_throws [OF h, of now med ty msg st c w] assms(1)
    by (cases "handlerLogResult io") (auto simp: newEvents_def)
  have push: "isl r \<and>
      dispatchChannels (newEvents w w') =
        (if emailConfigured cs then [''EMAIL'', ''PUSH''] else [''PUSH'']) \<and>
      (case last (newEvents w w') of
         LogCreate row \<Rightarrow>
           medicineId row = med_id med \<and> logType row = ty \<and>
           status row = ''failed'' \<and> message row = e
       | _ \<Rightarrow> False) \<and>
      medicines w' = medicines w \<and>
      (handlerLogResult io = None \<longrightarrow>
         r = Inl (PushError e) \<and>
         map status (drop (length (logs w)) (logs w')) =
           (if emailConfigured cs then [''success'', ''failed''] else [''failed'']) \<and>
         message (last (logs w')) = e) \<and>
      (handlerLogResult io = Some e2 \<longrightarrow>
         r = Inl (LogError e2) \<and>
         map status (drop (length (logs w)) (logs w')) =
           (if emailConfigured cs then [''success''] else []))"
    if h: "freshSettings io = Some cs"
      "\<not> emailConfigured cs \<or> emailResult io = None \<and> emailLogResult io = None"
      "pushConfigured cs" "pushResult io = Some e"
    using sendNotification_push_throws [OF h, of now med ty msg st c w] assms(1)
    by (cases "handlerLogResult io"; cases "emailConfigured cs") (auto simp: newEvents_def)
  have daily: "isl rd \<and> medicines wd = medicines w \<and>
      (\<forall>m \<in> set (dailySelection now w). m \<in> set (medicines wd) \<and> \<not> notified m)"
    if en: "enableDailyNotifications st" and ne: "dailySelection now w \<noteq> []"
      and h: "freshSettings io = Some cs" "emailConfigured cs" "emailResult io = Some e"
  proof -
    let ?S = "sendNotification io now (hd (dailySelection now w)) ''DAILY''
           (dailyMessage now (dailySelection now w)) st True (emit MedicineFindMany w)"
    have f: "isl (fst ?S)"
      by (cases "handlerLogResult io") (simp_all add: sendNotification_email_throws [OF h])
    have "processDailyNotifications io now st w = ?S"
      by (rule processDaily_send_fails [OF en ne f])
    with assms(2) have S: "?S = (rd, wd)"
      by simp
    have m: "medicines wd = medicines w"
      using sendNotification_consolidated_medicines
        [of io now "hd (dailySelection now w)" "''DAILY''"
          "dailyMessage now (dailySelection now w)" st "emit MedicineFindMany w"]
      by (simp add: S)
    from f S m show ?thesis
      by (simp add: dailySelection_subset)
  qed
  from order mail push daily show ?thesis
    by blast
qed

theorem channel_failure_handling_witness:
  "freshSettings ex_io_email_down = Some ex_settings \<and> emailConfigured ex_settings \<and>
   emailResult ex_io_email_down = Some ''smtp down'' \<and>
   handlerLogResult ex_io_email_down = None \<and>
   fst (sendNotification ex_io_email_down ex_now ex_aspirin ''DAILY'' ''text'' ex_settings True
          ex_world) = Inl (EmailError ''smtp down'') \<and>
   dispatchChannels (newEvents ex_world
     (snd (sendNotification ex_io_email_down ex_now ex_aspirin ''DAILY'' ''text'' ex_settings True
          ex_world))) = [''EMAIL''] \<and>
   logs (snd (sendNotification ex_io_email_down ex_now ex_aspirin ''DAILY'' ''text'' ex_settings
          True ex_world)) =
     [\<lparr>medicineId = 1, logType = ''DAILY'', channel = ''EMAIL'', status = ''failed'',
       message = ''smtp down'', logEmail = Some ''a@x.com''\<rparr>] \<and>
   enableDailyNotifications ex_settings \<and> dailySelection ex_now ex_world \<noteq> [] \<and>
   isl (fst (processDailyNotifications ex_io_email_down ex_now ex_settings ex_world)) \<and>
   medicines (snd (processDailyNotifications ex_io_email_down ex_now ex_settings ex_world)) =
     [ex_ibuprofen, ex_aspirin] \<and>
   freshSettings ex_io_all_down = Some ex_settings \<and>
   emailResult ex_io_all_down = Some ''smtp down'' \<and>
   handlerLogResult ex_io_all_down = Some ''database is locked'' \<and>
   fst (sendNotification ex_io_all_down ex_now ex_aspirin ''DAILY'' ''text'' ex_settings True
          ex_world) = Inl (LogError ''database is locked'') \<and>
   logs (snd (sendNotification ex_io_all_down ex_now ex_aspirin ''DAILY'' ''text'' ex_settings
          True ex_world)) = [] \<and>
   medicines (snd (sendNotification ex_io_all_down ex_now ex_aspirin ''DAILY'' ''text''
          ex_settings True ex_world)) = [ex_ibuprofen, ex_aspirin] \<and>
   freshSettings ex_io_push_down = Some ex_settings \<and>
   emailResult ex_io_push_down = None \<and> emailLogResult ex_io_push_down = None \<and>
   pushConfigured ex_settings \<and> pushResult ex_io_push_down = Some ''410 Gone'' \<and>
   handlerLogResult ex_io_push_down = None \<and>
   fst (sendNotification ex_io_push_down ex_now ex_aspirin ''DAILY'' ''text'' ex_settings False
          ex_world) = Inl (PushError ''410 Gone'') \<and>
   dispatchChannels (newEvents ex_world
     (snd (sendNotification ex_io_push_down ex_now ex_aspirin ''DAILY'' ''text'' ex_settings False
          ex_world))) = [''EMAIL'', ''PUSH''] \<and>
   map status (logs (snd (sendNotification ex_io_push_down ex_now ex_aspirin ''DAILY'' ''text''
          ex_settings False ex_world))) = [''success'', ''failed''] \<and>
   medicines (snd (sendNotification ex_io_push_down ex_now ex_aspirin ''DAILY'' ''text''
          ex_settings False ex_world)) = [ex_ibuprofen, ex_aspirin]"
proof -
  let ?S = "sendNotification ex_io_email_down ex_now ex_aspirin ''DAILY'' ''text'' ex_settings True
    ex_world"
  let ?D = "processDailyNotifications ex_io_email_down ex_now ex_settings ex_world"
  let ?A = "sendNotification ex_io_all_down ex_now ex_aspirin ''DAILY'' ''text'' ex_settings True
    ex_world"
  let ?B = "processDailyNotifications ex_io_all_down ex_now ex_settings ex_world"
  let ?P = "sendNotification ex_io_push_down ex_now ex_aspirin ''DAILY'' ''text'' ex_settings
    False ex_world"
  let ?E = "processDailyNotifications ex_io_push_down ex_now ex_settings ex_world"
  have em: "email ex_settings = Some ''a@x.com''"
    by (simp add: ex_settings_def)
  note mail = channel_failure_handling
    [of ex_io_email_down ex_now ex_aspirin "''DAILY''" "''text''" ex_settings True ex_world
      "fst ?S" "snd ?S" "fst ?D" "snd ?D" ex_settings "''smtp down''" "''x''"]
  note both = channel_failure_handling
    [of ex_io_all_down ex_now ex_aspirin "''DAILY''" "''text''" ex_settings True ex_world
      "fst ?A" "snd ?A" "fst ?B" "snd ?B" ex_settings "''smtp down''" "''database is locked''"]
  note push = channel_failure_handling
    [of ex_io_push_down ex_now ex_aspirin "''DAILY''" "''text''" ex_settings False ex_world
      "fst ?P" "snd ?P" "fst ?E" "snd ?E" ex_settings "''410 Gone''" "''x''"]
  from mail have a:
    "fst ?S = Inl (EmailError ''smtp down'')"
    "dispatchChannels (newEvents ex_world (snd ?S)) = [''EMAIL'']"
    "logs (snd ?S) =
       [\<lparr>medicineId = 1, logType = ''DAILY'', channel = ''EMAIL'', status = ''failed'',
         message = ''smtp down'', logEmail = Some ''a@x.com''\<rparr>]"
    "isl (fst ?D)" "medicines (snd ?D) = [ex_ibuprofen, ex_aspirin]"
    by (simp_all add: ex_io_email_down_facts ex_settings_channels ex_enabled
        ex_dailySelection_ne ex_world_facts em)
  from both have b:
    "fst ?A = Inl (LogError ''database is locked'')"
    "logs (snd ?A) = []" "medicines (snd ?A) = [ex_ibuprofen, ex_aspirin]"
    by (simp_all add: ex_io_all_down_facts ex_settings_channels ex_world_facts)
  from push have c:
    "fst ?P = Inl (PushError ''410 Gone'')"
    "dispatchChannels (newEvents ex_world (snd ?P)) = [''EMAIL'', ''PUSH'']"
    "map status (logs (snd ?P)) = [''success'', ''failed'']"
    "medicines (snd ?P) = [ex_ibuprofen, ex_aspirin]"
    by (simp_all add: ex_io_push_down_facts ex_settings_channels ex_world_facts)
  from a b c show ?thesis
    by (simp add: ex_io_email_down_facts ex_io_all_down_facts ex_io_push_down_facts
        ex_settings_channels ex_enabled ex_dailySelection_ne)
qed

text \<open>
  The claim as first stated fails on the sample: with the mail API down and the log
  table rejecting the handler's row, no failed row is logged and the error that reaches
  the caller is the log table's, not the mail API's.
\<close>

theorem channel_failure_counterexample:
  "freshSettings ex_io_all_down = Some ex_settings \<and> emailConfigured ex_settings \<and>
   emailResult ex_io_all_down = Some ''smtp down'' \<and>
   handlerLogResult ex_io_all_down = Some ''database is locked'' \<and>
   fst (sendNotification ex_io_all_down ex_now ex_aspirin ''DAILY'' ''text'' ex_settings True
          ex_world) = Inl (LogError ''database is locked'') \<and>
   logs (snd (sendNotification ex_io_all_down ex_now ex_aspirin ''DAILY'' ''text'' ex_settings
          True ex_world)) = []"
  by (simp add: sendNotification_email_throws
      [OF ex_io_all_down_facts(1) ex_settings_channels(1) ex_io_all_down_facts(2)]
      ex_io_all_down_facts ex_settings_channels ex_world_facts)

text \<open>
  C6. The claim asks that the failed row name the channel that failed. It does when the
  mail send fails. When the push send fails it does not: the handler writes the
  constant \<open>'EMAIL'\<close>. With mail not configured, push configured, the push send throwing
  and the log table accepting the row, the only dispatch call is on the push channel
  and the one new log row has channel \<open>'EMAIL'\<close> and status \<open>failed\<close>.
\<close>

theorem push_failure_logged_as_email:
  assumes "sendNotification io now med ty msg st c w = (r, w')"
    and "freshSettings io = Some cs" and "\<not> emailConfigured cs"
    and "pushConfigured cs" and "pushResult io = Some e" and "handlerLogResult io = None"
  shows "r = Inl (PushError e) \<and>
         dispatchChannels (newEvents w w') = [''PUSH''] \<and>
         logs w' = logs w @
           [\<lparr>medicineId = med_id med, logType = ty, channel = ''EMAIL'', status = ''failed'',
             message = e,
             logEmail = (case handlerSettings io of None \<Rightarrow> None | Some s \<Rightarrow> email s)\<rparr>]"
  using sendNotification_push_throws
    [OF assms(2) disjI1 [OF assms(3)] assms(4,5), of now med ty msg st c w] assms(1,3,6)
  by (auto simp: newEvents_def)

theorem push_failure_logged_as_email_witness:
  "freshSettings ex_io_push_only_down = Some ex_settings_push_only \<and>
   \<not> emailConfigured ex_settings_push_only \<and> pushConfigured ex_settings_push_only \<and>
   pushResult ex_io_push_only_down = Some ''410 Gone'' \<and>
   handlerLogResult ex_io_push_only_down = None \<and>
   fst (sendNotification ex_io_push_only_down ex_now ex_aspirin ''DAILY'' ''text'' ex_settings
          True ex_world) = Inl (PushError ''410 Gone'') \<and>
   dispatchChannels (newEvents ex_world
     (snd (sendNotification ex_io_push_only_down ex_now ex_aspirin ''DAILY'' ''text'' ex_settings
          True ex_world))) = [''PUSH''] \<and>
   logs (snd (sendNotification ex_io_push_only_down ex_now ex_aspirin ''DAILY'' ''text''
          ex_settings True ex_world)) =
     [\<lparr>medicineId = 1, logType = ''DAILY'', channel = ''EMAIL'', status = ''failed'',
       message = ''410 Gone'', logEmail = Some ''a@x.com''\<rparr>]"
proof -
  let ?S = "sendNotification ex_io_push_only_down ex_now ex_aspirin ''DAILY'' ''text'' ex_settings
    True ex_world"
  have s: "?S = (fst ?S, snd ?S)"
    by simp
  have em: "email ex_settings_push_only = Some ''a@x.com''"
    by (simp add: ex_settings_push_only_def ex_settings_def)
  from push_failure_logged_as_email [OF s ex_io_push_only_down_facts(1-5)]
  show ?thesis
    by (simp add: ex_io_push_only_down_facts ex_world_facts em)
qed

text \<open>
  C8, as amended. A throw of the log insert that follows a successful channel send is
  not kept apart from the dispatch: it is handled like a channel failure. The call ends
  with an error, and the handler's last act is the insert of a log row with status
  \<open>failed\<close> carrying the log error's message. When that insert is accepted the row is
  in the log and the caller receives the first log error; when it throws too, no failed
  row is written and the caller receives the second insert's error. Either way the
  steps that remain are not run: after a failed insert of the mail's log row no push
  message is sent, no medicine is updated, and in the Daily path no medicine is marked.
\<close>

theorem log_failure_handling:
  assumes "sendNotification io now med ty msg st c w = (r, w')"
    and "processDailyNotifications io now st w = (rd, wd)"
  shows
   "(freshSettings io = Some cs \<and> emailConfigured cs \<and>
     emailResult io = None \<and> emailLogResult io = Some e \<longrightarrow>
      isl r \<and> dispatchChannels (newEvents w w') = [''EMAIL''] \<and>
      (case last (newEvents w w') of
         LogCreate row \<Rightarrow>
           medicineId row = med_id med \<and> logType row = ty \<and>
           status row = ''failed'' \<and> message row = e
       | _ \<Rightarrow> False) \<and>
      medicines w' = medicines w \<and>
      (handlerLogResult io = None \<longrightarrow>
         r = Inl (LogError e) \<and>
         map status (drop (length (logs w)) (logs w')) = [''failed''] \<and>
         message (last (logs w')) = e) \<and>
      (handlerLogResult io = Some e2 \<longrightarrow> r = Inl (LogError e2) \<and> logs w' = logs w)) \<and>
    (freshSettings io = Some cs \<and>
     (\<not> emailConfigured cs \<or> emailResult io = None \<and> emailLogResult io = None) \<and>
     pushConfigured cs \<and> pushResult io = None \<and> pushLogResult io = Some e \<longrightarrow>
      isl r \<and>
      (case last (newEvents w w') of
         LogCreate row \<Rightarrow>
           medicineId row = med_id med \<and> logType row = ty \<and>
           status row = ''failed'' \<and> message row = e
       | _ \<Rightarrow> False) \<and>
      medicines w' = medicines w \<and>
      (handlerLogResult io = None \<longrightarrow>
         r = Inl (LogError e) \<and>
         map status (drop (length (logs w)) (logs w')) =
           (if emailConfigured cs then [''success'', ''failed''] else [''failed'']) \<and>
         message (last (logs w')) = e) \<and>
      (handlerLogResult io = Some e2 \<longrightarrow>
         r = Inl (LogError e2) \<and>
         map status (drop (length (logs w)) (logs w')) =
           (if emailConfigured cs then [''success''] else []))) \<and>
    (enableDailyNotifications st \<and> dailySelection now w \<noteq> [] \<and>
     freshSettings io = Some cs \<and> emailConfigured cs \<and>
     emailResult io = None \<and> emailLogResult io = Some e \<longrightarrow>
      isl rd \<and> medicines wd = medicines w \<and>
      (\<forall>m \<in> set (dailySelection now w). m \<in> set (medicines wd) \<and> \<not> notified m))"
proof -
  have mail: "isl r \<and> dispatchChannels (newEvents w w') = [''EMAIL''] \<and>
      (case last (newEvents w w') of
         LogCreate row \<Rightarrow>
           medicineId row = med_id med \<and> logType row = ty \<and>
           status row = ''failed'' \<and> message row = e
       | _ \<Rightarrow> False) \<and>
      medicines w' = medicines w \<and>
      (handlerLogResult io = None \<longrightarrow>
         r = Inl (LogError e) \<and>
         map status (drop (length (logs w)) (logs w')) = [''failed''] \<and>
         message (last (logs w')) = e) \<and>
      (handlerLogResult io = Some e2 \<longrightarrow> r = Inl (LogError e2) \<and> logs w' = logs w)"
    if h: "freshSettings io = Some cs" "emailConfigured cs"
      "emailResult io = None" "emailLogResult io = Some e"
    using sendNotification_email_log_throws [OF h, of now med ty msg st c w] assms(1)
    by (cases "handlerLogResult io") (auto simp: newEvents_def)
  have push: "isl r \<and>
      (case last (newEvents w w') of
         LogCreate row \<Rightarrow>
           medicineId row = med_id med \<and> logType row = ty \<and>
           status row = ''failed'' \<and> message row = e
       | _ \<Rightarrow> False) \<and>
      medicines w' = medicines w \<and>
      (handlerLogResult io = None \<longrightarrow>
         r = Inl (LogError e) \<and>
         map status (drop (length (logs w)) (logs w')) =
           (if emailConfigured cs then [''success'', ''failed''] else [''failed'']) \<and>
         message (last (logs w')) = e) \<and>
      (handlerLogResult io = Some e2 \<longrightarrow>
         r = Inl (LogError e2) \<and>
         map status (drop (length (logs w)) (logs w')) =
           (if emailConfigured cs then [''success''] else []))"
    if h: "freshSettings io = Some cs"
      "\<not> emailConfigured cs \<or> emailResult io = None \<and> emailLogResult io = None"
      "pushConfigured cs" "pushResult io = None" "pushLogResult io = Some e"
    using sendNotification_push_log_throws [OF h, of now med ty msg st c w] assms(1)
    by (cases "handlerLogResult io"; cases "emailConfigured cs") (auto simp: newEvents_def)
  have daily: "isl rd \<and> medicines wd = medicines w \<and>
      (\<forall>m \<in> set (dailySelection now w). m \<in> set (medicines wd) \<and> \<not> notified m)"
    if en: "enableDailyNotifications st" and ne: "dailySelection now w \<noteq> []"
      and h: "freshSettings io = Some cs" "emailConfigured cs"
        "emailResult io = None" "emailLogResult io = Some e"
  proof -
    let ?S = "sendNotification io now (hd (dailySelection now w)) ''DAILY''
           (dailyMessage now (dailySelection now w)) st True (emit MedicineFindMany w)"
    have f: "isl (fst ?S)"
      by (cases "handlerLogResult io") (simp_all add: sendNotification_email_log_throws [OF h])
    have "processDailyNotifications io now st w = ?S"
      by (rule processDaily_send_fails [OF en ne f])
    with assms(2) have S: "?S = (rd, wd)"
      by simp
    have m: "medicines wd = medicines w"
      using sendNotification_consolidated_medicines
        [of io now "hd (dailySelection now w)" "''DAILY''"
          "dailyMessage now (dailySelection now w)" st "emit MedicineFindMany w"]
      by (simp add: S)
    from f S m show ?thesis
      by (simp add: dailySelection_subset)
  qed
  from mail push daily show ?thesis
    by blast
qed

theorem log_failure_handling_witness:
  "freshSettings ex_io_log_down = Some ex_settings \<and> emailConfigured ex_settings \<and>
   emailResult ex_io_log_down = None \<and>
   emailLogResult ex_io_log_down = Some ''database is locked'' \<and>
   handlerLogResult ex_io_log_down = None \<and>
   enableDailyNotifications ex_settings \<and> dailySelection ex_now ex_world \<noteq> [] \<and>
   fst (sendNotification ex_io_log_down ex_now ex_aspirin ''DAILY'' ''text'' ex_settings True
          ex_world) = Inl (LogError ''database is locked'') \<and>
   dispatchChannels (newEvents ex_world
     (snd (sendNotification ex_io_log_down ex_now ex_aspirin ''DAILY'' ''text'' ex_settings True
          ex_world))) = [''EMAIL''] \<and>
   map status (logs (snd (sendNotification ex_io_log_down ex_now ex_aspirin ''DAILY'' ''text''
          ex_settings True ex_world))) = [''failed''] \<and>
   isl (fst (processDailyNotifications ex_io_log_down ex_now ex_settings ex_world)) \<and>
   medicines (snd (processDailyNotifications ex_io_log_down ex_now ex_settings ex_world)) =
     [ex_ibuprofen, ex_aspirin] \<and>
   freshSettings ex_io_log_all_down = Some ex_settings \<and>
   emailResult ex_io_log_all_down = None \<and>
   emailLogResult ex_io_log_all_down = Some ''database is locked'' \<and>
   handlerLogResult ex_io_log_all_down = Some ''disk full'' \<and>
   fst (sendNotification ex_io_log_all_down ex_now ex_aspirin ''DAILY'' ''text'' ex_settings True
          ex_world) = Inl (LogError ''disk full'') \<and>
   logs (snd (sendNotification ex_io_log_all_down ex_now ex_aspirin ''DAILY'' ''text''
          ex_settings True ex_world)) = [] \<and>
   freshSettings ex_io_push_log_down = Some ex_settings \<and> pushConfigured ex_settings \<and>
   emailResult ex_io_push_log_down = None \<and> emailLogResult ex_io_push_log_down = None \<and>
   pushResult ex_io_push_log_down = None \<and>
   pushLogResult ex_io_push_log_down = Some ''database is locked'' \<and>
   handlerLogResult ex_io_push_log_down = None \<and>
   fst (sendNotification ex_io_push_log_down ex_now ex_aspirin ''DAILY'' ''text'' ex_settings
          False ex_world) = Inl (LogError ''database is locked'') \<and>
   medicines (snd (sendNotification ex_io_push_log_down ex_now ex_aspirin ''DAILY'' ''text''
          ex_settings False ex_world)) = [ex_ibuprofen, ex_aspirin]"
proof -
  let ?S = "sendNotification ex_io_log_down ex_now ex_aspirin ''DAILY'' ''text'' ex_settings True
    ex_world"
  let ?D = "processDailyNotifications ex_io_log_down ex_now ex_settings ex_world"
  let ?A = "sendNotification ex_io_log_all_down ex_now ex_aspirin ''DAILY'' ''text'' ex_settings
    True ex_world"
  let ?B = "processDailyNotifications ex_io_log_all_down ex_now ex_settings ex_world"
  let ?P = "sendNotification ex_io_push_log_down ex_now ex_aspirin ''DAILY'' ''text'' ex_settings
    False ex_world"
  let ?E = "processDailyNotifications ex_io_push_log_down ex_now ex_settings ex_world"
  note t = log_failure_handling
    [of ex_io_log_down ex_now ex_aspirin "''DAILY''" "''text''" ex_settings True ex_world
      "fst ?S" "snd ?S" "fst ?D" "snd ?D" ex_settings "''database is locked''" "''x''"]
  note v = log_failure_handling
    [of ex_io_log_all_down ex_now ex_aspirin "''DAILY''" "''text''" ex_settings True ex_world
      "fst ?A" "snd ?A" "fst ?B" "snd ?B" ex_settings "''database is locked''" "''disk full''"]
  note u = log_failure_handling
    [of ex_io_push_log_down ex_now ex_aspirin "''DAILY''" "''text''" ex_settings False ex_world
      "fst ?P" "snd ?P" "fst ?E" "snd ?E" ex_settings "''database is locked''" "''x''"]
  from t have a:
    "fst ?S = Inl (LogError ''database is locked'')"
    "dispatchChannels (newEvents ex_world (snd ?S)) = [''EMAIL'']"
    "map status (logs (snd ?S)) = [''failed'']"
    "isl (fst ?D)" "medicines (snd ?D) = [ex_ibuprofen, ex_aspirin]"
    by (simp_all add: ex_io_log_down_facts ex_settings_channels ex_enabled
        ex_dailySelection_ne ex_world_facts)
  from v have b:
    "fst ?A = Inl (LogError ''disk full'')" "logs (snd ?A) = []"
    by (simp_all add: ex_io_log_all_down_facts ex_settings_channels ex_world_facts)
  from u have c:
    "fst ?P = Inl (LogError ''database is locked'')"
    "medicines (snd ?P) = [ex_ibuprofen, ex_aspirin]"
    by (simp_all add: ex_io_push_log_down_facts ex_settings_channels ex_world_facts)
  from a b c show ?thesis
    by (simp add: ex_io_log_down_facts ex_io_log_all_down_facts ex_io_push_log_down_facts
        ex_settings_channels ex_enabled ex_dailySelection_ne)
qed

text \<open>
  The claim as first stated fails on the sample: the mail goes out, the insert of its
  log row throws, and with that the push message (configured) is never sent, the Daily
  path ends with the log error, a row with status \<open>failed\<close> is written for a mail
  that was delivered, and no medicine is marked.
\<close>

theorem log_failure_counterexample:
  "emailConfigured ex_settings \<and> pushConfigured ex_settings \<and>
   emailResult ex_io_log_down = None \<and>
   emailLogResult ex_io_log_down = Some ''database is locked'' \<and>
   pushResult ex_io_log_down = None \<and>
   fst (processDailyNotifications ex_io_log_down ex_now ex_settings ex_world) =
     Inl (LogError ''database is locked'') \<and>
   dispatchChannels (newEvents ex_world
     (snd (processDailyNotifications ex_io_log_down ex_now ex_settings ex_world))) = [''EMAIL''] \<and>
   map status (logs (snd (processDailyNotifications ex_io_log_down ex_now ex_settings ex_world))) =
     [''failed''] \<and>
   medicines (snd (processDailyNotifications ex_io_log_down ex_now ex_settings ex_world)) =
     [ex_ibuprofen, ex_aspirin] \<and>
   notified ex_ibuprofen = False \<and> notified ex_aspirin = False"
  using ex_daily_log_down
  by (simp add: ex_settings_channels ex_io_log_down_facts ex_world_facts)
    (simp add: ex_io_log_down_def ex_io_def)

text \<open>
  C9. When the first settings read of a cycle finds no row, the cycle returns normally
  having done nothing but that read. When the read at the top of \<open>sendNotification\<close>
  finds no row, the call does not return normally: reading a property of \<open>null\<close>
  throws, the handler inserts a row with status \<open>failed\<close>, and the error goes to the
  caller (no channel is called and no medicine is updated).
\<close>

theorem settings_absence:
  assumes "checkAndSendNotifications cio now forceCheck w = (rc, wc)"
    and "sendNotification io now med ty msg st c w = (r, w')"
  shows "(initialSettings cio = None \<longrightarrow> rc = Inr () \<and> wc = emit SettingsRead w) \<and>
         (freshSettings io = None \<longrightarrow>
            isl r \<and> dispatchChannels (newEvents w w') = [] \<and> medicines w' = medicines w \<and>
            last (newEvents w w') =
              LogCreate \<lparr>medicineId = med_id med, logType = ty, channel = ''EMAIL'',
                status = ''failed'', message = errorMessage nullPropertyError,
                logEmail = (case handlerSettings io of None \<Rightarrow> None | Some s \<Rightarrow> email s)\<rparr> \<and>
            (handlerLogResult io = None \<longrightarrow>
               r = Inl nullPropertyError \<and>
               logs w' = logs w @
                 [\<lparr>medicineId = med_id med, logType = ty, channel = ''EMAIL'',
                   status = ''failed'', message = errorMessage nullPropertyError,
                   logEmail = (case handlerSettings io of None \<Rightarrow> None | Some s \<Rightarrow> email s)\<rparr>]))"
proof -
  have start: "rc = Inr () \<and> wc = emit SettingsRead w" if "initialSettings cio = None"
    using assms(1) that
    by (simp add: checkAndSendNotifications_def getNotificationSettings_def)
  have reread: "isl r \<and> dispatchChannels (newEvents w w') = [] \<and> medicines w' = medicines w \<and>
      last (newEvents w w') =
        LogCreate \<lparr>medicineId = med_id med, logType = ty, channel = ''EMAIL'',
          status = ''failed'', message = errorMessage nullPropertyError,
          logEmail = (case handlerSettings io of None \<Rightarrow> None | Some s \<Rightarrow> email s)\<rparr> \<and>
      (handlerLogResult io = None \<longrightarrow>
         r = Inl nullPropertyError \<and>
         logs w' = logs w @
           [\<lparr>medicineId = med_id med, logType = ty, channel = ''EMAIL'',
             status = ''failed'', message = errorMessage nullPropertyError,
             logEmail = (case handlerSettings io of None \<Rightarrow> None | Some s \<Rightarrow> email s)\<rparr>])"
    if h: "freshSettings io = None"
    using sendNotification_null_settings [OF h, of now med ty msg st c w] assms(2)
    by (cases "handlerLogResult io") (auto simp: newEvents_def)
  from start reread show ?thesis
    by blast
qed

theorem settings_absence_witness:
  "initialSettings ex_cycle_unconfigured = None \<and>
   checkAndSendNotifications ex_cycle_unconfigured ex_now False ex_world =
     (Inr (), emit SettingsRead ex_world) \<and>
   initialSettings ex_cycle_settings_gone = Some ex_settings \<and>
   freshSettings (dailyIo ex_cycle_settings_gone) = None \<and>
   handlerLogResult (dailyIo ex_cycle_settings_gone) = None \<and>
   fst (checkAndSendNotifications ex_cycle_settings_gone ex_now False ex_world) =
     Inl nullPropertyError \<and>
   logs (snd (checkAndSendNotifications ex_cycle_settings_gone ex_now False ex_world)) =
     [\<lparr>medicineId = 1, logType = ''DAILY'', channel = ''EMAIL'', status = ''failed'',
       message = ''Cannot read properties of null'', logEmail = None\<rparr>]"
proof -
  let ?C = "checkAndSendNotifications ex_cycle_unconfigured ex_now False ex_world"
  let ?w = "emit MedicineFindMany (emit SettingsRead ex_world)"
  let ?S = "sendNotification ex_io_settings_gone ex_now ex_aspirin ''DAILY''
       (dailyMessage ex_now [ex_aspirin, ex_ibuprofen]) ex_settings True ?w"
  let ?X = "checkAndSendNotifications ex_cycle_unconfigured ex_now False ?w"
  have u: "initialSettings ex_cycle_unconfigured = None"
    by (simp add: ex_cycle_unconfigured_def ex_cycle_def)
  have g: "initialSettings ex_cycle_settings_gone = Some ex_settings"
    "dailyIo ex_cycle_settings_gone = ex_io_settings_gone"
    by (simp_all add: ex_cycle_settings_gone_def ex_cycle_def)
  have c: "?C = (fst ?C, snd ?C)"
    by simp
  have s0: "sendNotification ex_io ex_now ex_aspirin ''DAILY'' ''text'' ex_settings True ex_world =
    (fst (sendNotification ex_io ex_now ex_aspirin ''DAILY'' ''text'' ex_settings True ex_world),
     snd (sendNotification ex_io ex_now ex_aspirin ''DAILY'' ''text'' ex_settings True ex_world))"
    by simp
  have x: "?X = (fst ?X, snd ?X)"
    by simp
  have s: "?S = (fst ?S, snd ?S)"
    by simp
  from settings_absence [OF c s0] u have a: "?C = (Inr (), emit SettingsRead ex_world)"
    by (simp add: prod_eq_iff)
  from settings_absence [OF x s] ex_io_settings_gone_facts
  have "fst ?S = Inl nullPropertyError"
    and "logs (snd ?S) = logs ?w @
      [\<lparr>medicineId = med_id ex_aspirin, logType = ''DAILY'', channel = ''EMAIL'',
        status = ''failed'', message = errorMessage nullPropertyError, logEmail = None\<rparr>]"
    by simp_all
  then have b: "fst (checkAndSendNotifications ex_cycle_settings_gone ex_now False ex_world) =
      Inl nullPropertyError"
    "logs (snd (checkAndSendNotifications ex_cycle_settings_gone ex_now False ex_world)) =
     [\<lparr>medicineId = 1, logType = ''DAILY'', channel = ''EMAIL'', status = ''failed'',
       message = ''Cannot read properties of null'', logEmail = None\<rparr>]"
    by (simp_all add: ex_cycle_settings_gone_result ex_world_facts nullPropertyError_def)
  from u a g b show ?thesis
    by (simp add: ex_io_settings_gone_facts)
qed

section \<open>The Daily marking and delivery failures\<close>




end
